theory Spec2Isabelle
  imports Complex_Main "HOL-Library.Multiset"
begin

section \<open>Six Sigma DMAIC workflow: dashboard components and protocol servers\<close>

text \<open>
  The repository holds a React dashboard backed by a relational store and several
  protocol-server variants of the same DMAIC workflow. Each definition below embeds one
  source function and names the file it comes from. JavaScript numbers are modelled as
  exact real numbers (\<open>real\<close>): the properties proved are those of the arithmetic the code
  writes down, not of binary floating-point rounding.
\<close>

subsection \<open>JavaScript number helpers\<close>

text \<open>
  \<open>Array.prototype.indexOf\<close>: the first position of the element, or \<open>-1\<close>.
\<close>

fun indexOf :: "'a list \<Rightarrow> 'a \<Rightarrow> int" where
  "indexOf [] x = -1"
| "indexOf (y # ys) x = (if y = x then 0 else (let i = indexOf ys x in if i < 0 then -1 else i + 1))"

text \<open>
  \<open>Math.round\<close>: the nearest integer, a tie going up.
\<close>

definition Math_round :: "real \<Rightarrow> int" where
  "Math_round x = \<lfloor>x + 1 / 2\<rfloor>"

text \<open>
  Decimal digits of a natural number, as \<open>Number.prototype.toString\<close> prints them.
\<close>

definition digit_char :: "nat \<Rightarrow> char" where
  "digit_char d = ''0123456789'' ! d"

function show_nat :: "nat \<Rightarrow> string" where
  "show_nat n = (if n < 10 then [digit_char n] else show_nat (n div 10) @ [digit_char (n mod 10)])"
  by pat_completeness auto
termination
  by (relation "measure id") auto

declare show_nat.simps [simp del]

text \<open>
  \<open>Number.prototype.toFixed(1)\<close>: the sign is split off, the magnitude is rounded to
  the nearest number of tenths (of two equally near, the larger), and the digits are
  printed with one decimal.
\<close>

definition toFixed1_tenths :: "real \<Rightarrow> nat" where
  "toFixed1_tenths x = nat \<lfloor>\<bar>x\<bar> * 10 + 1 / 2\<rfloor>"

definition toFixed1 :: "real \<Rightarrow> string" where
  "toFixed1 x =
     (let n = toFixed1_tenths x
      in (if x < 0 then ''-'' else '''') @ show_nat (n div 10) @ ''.'' @ show_nat (n mod 10))"

subsection \<open>Dashboard data model (lib/supabase.ts)\<close>

datatype phase = DEFINE | MEASURE | ANALYZE | IMPROVE | CONTROL | COMPLETED

datatype risk_level = LOW | MEDIUM | HIGH

record KPI =
  kpi_id :: string
  kpi_project_id :: string
  kpi_name :: string
  kpi_description :: string
  kpi_target :: real
  kpi_current_value :: real
  kpi_unit :: string

subsection \<open>MeasurePhase: KPI performance\<close>

text \<open>
  \<open>calculatePerformance\<close> returns the number \<open>0\<close> for a zero target and otherwise a
  string, the result of \<open>toFixed(1)\<close>.
\<close>

datatype js_result = JNumber real | JString string

definition calculatePerformance :: "KPI \<Rightarrow> js_result" where
  "calculatePerformance kpi =
     (if kpi_target kpi = 0 then JNumber 0
      else JString (toFixed1 ((kpi_current_value kpi / kpi_target kpi) * 100)))"


subsection \<open>ImprovePhase: candidate solutions\<close>

datatype approach = incremental | redesign | innovative

datatype solution_status = proposed | approved | implemented

record Solution =
  sol_id :: string
  sol_project_id :: string
  sol_title :: string
  sol_description :: string
  sol_approach :: approach
  impact_score :: real
  effort_score :: real
  risk_score :: real
  cost_score :: real
  total_score :: real
  sol_status :: solution_status

text \<open>The form state \<open>newSolution\<close> of the component and its reset value.\<close>

record newSolution =
  ns_title :: string
  ns_description :: string
  ns_approach :: approach
  ns_impact_score :: real
  ns_effort_score :: real
  ns_risk_score :: real
  ns_cost_score :: real

definition newSolution_reset :: newSolution where
  "newSolution_reset =
     \<lparr>ns_title = '''', ns_description = '''', ns_approach = incremental,
      ns_impact_score = 5, ns_effort_score = 5, ns_risk_score = 5, ns_cost_score = 5\<rparr>"

definition calculateTotalScore :: "newSolution \<Rightarrow> real" where
  "calculateTotalScore ns =
     (ns_impact_score ns * 2) - ns_effort_score ns - ns_risk_score ns - ns_cost_score ns"

text \<open>
  The insert into table \<open>solutions\<close> (migration, lines 508--521): each of the four
  scores carries a CHECK for the range 0 to 10, the status is not supplied and takes
  its default \<open>proposed\<close>, the key is generated by the store (here the argument
  \<open>new_id\<close>). A violated CHECK returns no row.
\<close>

definition score_in_range :: "real \<Rightarrow> bool" where
  "score_in_range v = (0 \<le> v \<and> v \<le> 10)"

definition insert_solution :: "string \<Rightarrow> string \<Rightarrow> newSolution \<Rightarrow> real \<Rightarrow> Solution option" where
  "insert_solution new_id projectId ns tot =
     (if score_in_range (ns_impact_score ns) \<and> score_in_range (ns_effort_score ns) \<and>
         score_in_range (ns_risk_score ns) \<and> score_in_range (ns_cost_score ns)
      then Some \<lparr>sol_id = new_id, sol_project_id = projectId, sol_title = ns_title ns,
                  sol_description = ns_description ns, sol_approach = ns_approach ns,
                  impact_score = ns_impact_score ns, effort_score = ns_effort_score ns,
                  risk_score = ns_risk_score ns, cost_score = ns_cost_score ns,
                  total_score = tot, sol_status = proposed\<rparr>
      else None)"

text \<open>
  \<open>xs.sort((a, b) => b.total_score - a.total_score)\<close>: a stable sort, largest total
  score first.
\<close>

definition sort_by_total_score_desc :: "Solution list \<Rightarrow> Solution list" where
  "sort_by_total_score_desc xs = sort_key (\<lambda>s. - total_score s) xs"

record ImprovePhase_state =
  solutions :: "Solution list"
  newSolution :: newSolution

definition ImprovePhase_initial :: ImprovePhase_state where
  "ImprovePhase_initial = \<lparr>solutions = [], newSolution = newSolution_reset\<rparr>"

text \<open>\<open>loadSolutions\<close>: the rows of the project, ordered by total score, descending.\<close>

definition loadSolutions :: "Solution list \<Rightarrow> ImprovePhase_state \<Rightarrow> ImprovePhase_state" where
  "loadSolutions rows st = st\<lparr>solutions := sort_by_total_score_desc rows\<rparr>"

definition addSolution :: "string \<Rightarrow> string \<Rightarrow> ImprovePhase_state \<Rightarrow> ImprovePhase_state" where
  "addSolution new_id projectId st =
     (if ns_title (newSolution st) = '''' then st
      else (let total_score = calculateTotalScore (newSolution st)
            in case insert_solution new_id projectId (newSolution st) total_score of
                 None \<Rightarrow> st
               | Some data \<Rightarrow>
                   st\<lparr>solutions := sort_by_total_score_desc (solutions st @ [data]),
                      newSolution := newSolution_reset\<rparr>))"

definition deleteSolution :: "string \<Rightarrow> ImprovePhase_state \<Rightarrow> ImprovePhase_state" where
  "deleteSolution ident st = st\<lparr>solutions := filter (\<lambda>s. sol_id s \<noteq> ident) (solutions st)\<rparr>"

definition updateStatus :: "string \<Rightarrow> solution_status \<Rightarrow> ImprovePhase_state \<Rightarrow> ImprovePhase_state" where
  "updateStatus ident status st =
     st\<lparr>solutions := map (\<lambda>s. if sol_id s = ident then s\<lparr>sol_status := status\<rparr> else s) (solutions st)\<rparr>"

text \<open>The events of the component: what a user of the Improve tab can trigger.\<close>

datatype ImprovePhase_event =
    EvLoad "Solution list"
  | EvEdit newSolution
  | EvAdd string string
  | EvDelete string
  | EvUpdateStatus string solution_status

fun ImprovePhase_step :: "ImprovePhase_state \<Rightarrow> ImprovePhase_event \<Rightarrow> ImprovePhase_state" where
  "ImprovePhase_step st (EvLoad rows) = loadSolutions rows st"
| "ImprovePhase_step st (EvEdit ns) = st\<lparr>newSolution := ns\<rparr>"
| "ImprovePhase_step st (EvAdd new_id projectId) = addSolution new_id projectId st"
| "ImprovePhase_step st (EvDelete ident) = deleteSolution ident st"
| "ImprovePhase_step st (EvUpdateStatus ident status) = updateStatus ident status st"

definition ImprovePhase_run :: "ImprovePhase_event list \<Rightarrow> ImprovePhase_state" where
  "ImprovePhase_run evs = foldl ImprovePhase_step ImprovePhase_initial evs"

definition ranked_desc :: "Solution list \<Rightarrow> bool" where
  "ranked_desc xs = sorted_wrt (\<lambda>a b. total_score b \<le> total_score a) xs"


subsection \<open>Project and artifacts of the dashboard (lib/supabase.ts)\<close>

record Project =
  proj_id :: string
  proj_name :: string
  business_case :: string
  deployment_target :: string
  budget_limit :: real
  timeline_days :: real
  current_phase :: phase
  quality_score :: real
  risk_level :: risk_level
  phase_completion :: real
  created_at :: string
  updated_at :: string

datatype requirement_category = functional | non_functional

datatype priority = PRIORITY_HIGH | PRIORITY_MEDIUM | PRIORITY_LOW

record Requirement =
  req_id :: string
  req_project_id :: string
  requirement :: string
  req_category :: requirement_category
  req_priority :: priority

record CTQItem =
  ctq_id :: string
  ctq_project_id :: string
  need :: string
  driver :: string
  ctq :: string
  ctq_target :: real
  usl :: real

datatype constraint_type = technical | business | regulatory | resource

record Constraint =
  con_id :: string
  con_project_id :: string
  con_type :: constraint_type
  con_description :: string
  con_impact :: priority

record FMEAItem =
  fmea_id :: string
  fmea_project_id :: string
  failure_mode :: string
  effects :: string
  causes :: string
  severity :: int
  occurrence :: int
  detection :: int
  rpn :: int

text \<open>The four check boxes of the Control tab (component state \<open>controlItems\<close>).\<close>

record controlItems =
  monitoring :: bool
  documentation :: bool
  validation :: bool
  training :: bool

subsection \<open>ProjectDetails: advancing the phase\<close>

definition phases :: "phase list" where
  "phases = [DEFINE, MEASURE, ANALYZE, IMPROVE, CONTROL]"

text \<open>
  \<open>advancePhase\<close> of ProjectDetails: the index of the current phase in \<open>phases\<close>
  (\<open>-1\<close> when it is not there), plus one; the update is written only when that is a
  position of \<open>phases\<close>.
\<close>

definition advancePhase :: "Project \<Rightarrow> Project" where
  "advancePhase project =
     (let currentPhaseIndex = indexOf phases (current_phase project);
          nextIndex = currentPhaseIndex + 1
      in if nextIndex < int (length phases)
         then project\<lparr>current_phase := phases ! nat nextIndex,
                      phase_completion := (real_of_int (nextIndex + 1) / real (length phases)) * 100\<rparr>
         else project)"

text \<open>\<open>markProjectComplete\<close> of ControlPhase.\<close>

definition markProjectComplete :: "Project \<Rightarrow> Project" where
  "markProjectComplete project =
     project\<lparr>current_phase := COMPLETED, phase_completion := 100, quality_score := 95\<rparr>"

subsection \<open>The completion conditions of the five phase components\<close>

definition DefinePhase_canComplete :: "Requirement list \<Rightarrow> CTQItem list \<Rightarrow> Constraint list \<Rightarrow> bool" where
  "DefinePhase_canComplete requirements ctqItems constraints =
     (length requirements > 0 \<and> length ctqItems > 0 \<and> length constraints > 0)"

definition MeasurePhase_canComplete :: "KPI list \<Rightarrow> bool" where
  "MeasurePhase_canComplete kpis = (length kpis \<ge> 3)"

definition AnalyzePhase_canComplete :: "FMEAItem list \<Rightarrow> bool" where
  "AnalyzePhase_canComplete fmeaItems = (length fmeaItems \<ge> 2)"

definition ImprovePhase_canComplete :: "Solution list \<Rightarrow> bool" where
  "ImprovePhase_canComplete sols =
     list_ex (\<lambda>s. sol_status s = approved \<or> sol_status s = implemented) sols"

definition allItemsComplete :: "controlItems \<Rightarrow> bool" where
  "allItemsComplete items =
     list_all (\<lambda>v. v) [monitoring items, documentation items, validation items, training items]"

text \<open>
  What the components of the current phase see: the rows of the project in each
  artifact table, and the check boxes of the Control tab.
\<close>

record snapshot =
  snap_requirements :: "Requirement list"
  snap_ctqItems :: "CTQItem list"
  snap_constraints :: "Constraint list"
  snap_kpis :: "KPI list"
  snap_fmeaItems :: "FMEAItem list"
  snap_solutions :: "Solution list"
  snap_controlItems :: controlItems

text \<open>
  ProjectDetails renders the component of the current phase and none for a completed
  project. Each component has one completion button, disabled unless the component's
  condition holds. The buttons of the first four components call \<open>advancePhase\<close>, the
  button of the Control tab calls \<open>markProjectComplete\<close>.
\<close>

definition button_enabled :: "phase \<Rightarrow> snapshot \<Rightarrow> bool" where
  "button_enabled ph s =
     (case ph of
        DEFINE \<Rightarrow> DefinePhase_canComplete (snap_requirements s) (snap_ctqItems s) (snap_constraints s)
      | MEASURE \<Rightarrow> MeasurePhase_canComplete (snap_kpis s)
      | ANALYZE \<Rightarrow> AnalyzePhase_canComplete (snap_fmeaItems s)
      | IMPROVE \<Rightarrow> ImprovePhase_canComplete (snap_solutions s)
      | CONTROL \<Rightarrow> allItemsComplete (snap_controlItems s)
      | COMPLETED \<Rightarrow> False)"

definition click_complete :: "Project \<Rightarrow> snapshot \<Rightarrow> Project" where
  "click_complete project s =
     (if \<not> button_enabled (current_phase project) s then project
      else case current_phase project of
             CONTROL \<Rightarrow> markProjectComplete project
           | COMPLETED \<Rightarrow> project
           | _ \<Rightarrow> advancePhase project)"

text \<open>
  The order of the phases in the words of the specification: the successor of a phase
  and its position in DEFINE, MEASURE, ANALYZE, IMPROVE, CONTROL, COMPLETED.
\<close>

fun successor :: "phase \<Rightarrow> phase" where
  "successor DEFINE = MEASURE"
| "successor MEASURE = ANALYZE"
| "successor ANALYZE = IMPROVE"
| "successor IMPROVE = CONTROL"
| "successor CONTROL = COMPLETED"
| "successor COMPLETED = COMPLETED"

fun phase_index :: "phase \<Rightarrow> nat" where
  "phase_index DEFINE = 0"
| "phase_index MEASURE = 1"
| "phase_index ANALYZE = 2"
| "phase_index IMPROVE = 3"
| "phase_index CONTROL = 4"
| "phase_index COMPLETED = 5"

subsection \<open>AnalyzePhase: risk items and the project's risk level\<close>

text \<open>
  The two lines of \<open>updateProjectRisk\<close>: the average of the risk priority numbers of
  the list (the sum divided by the length, or by 1 for the empty list) and its level.
\<close>

definition avgRpn :: "FMEAItem list \<Rightarrow> real" where
  "avgRpn fmeaItems =
     real_of_int (foldl (\<lambda>sum item. sum + rpn item) 0 fmeaItems)
       / (if length fmeaItems = 0 then 1 else real (length fmeaItems))"

definition riskLevel :: "FMEAItem list \<Rightarrow> risk_level" where
  "riskLevel fmeaItems =
     (if avgRpn fmeaItems > 300 then HIGH else if avgRpn fmeaItems > 150 then MEDIUM else LOW)"

definition updateProjectRisk :: "FMEAItem list \<Rightarrow> Project \<Rightarrow> Project" where
  "updateProjectRisk fmeaItems project = project\<lparr>risk_level := riskLevel fmeaItems\<rparr>"

datatype rpn_label = LABEL_CRITICAL | LABEL_HIGH | LABEL_MEDIUM | LABEL_LOW

definition getRpnLabel :: "int \<Rightarrow> rpn_label" where
  "getRpnLabel r =
     (if r > 300 then LABEL_CRITICAL else if r > 150 then LABEL_HIGH
      else if r > 80 then LABEL_MEDIUM else LABEL_LOW)"

subsection \<open>Table \<open>fmea_items\<close> (migration, lines 494--505)\<close>

text \<open>
  The columns \<open>severity\<close>, \<open>occurrence\<close> and \<open>detection\<close> are integers with a
  CHECK for the range 1 to 10; \<open>rpn\<close> is \<open>GENERATED ALWAYS AS (severity * occurrence *
  detection) STORED\<close>: the store computes it on every insert and update of the row
  and rejects a statement that supplies a value for it. An insert names the values of
  the other columns and may (wrongly) name one for \<open>rpn\<close>; an update names new values
  for some of the columns.
\<close>

datatype sql_error = check_violation string | generated_always string

record fmea_insert =
  ins_failure_mode :: string
  ins_effects :: string
  ins_causes :: string
  ins_severity :: int
  ins_occurrence :: int
  ins_detection :: int
  ins_rpn :: "int option"

record fmea_update =
  upd_severity :: "int option"
  upd_occurrence :: "int option"
  upd_detection :: "int option"
  upd_rpn :: "int option"

definition in_1_to_10 :: "int \<Rightarrow> bool" where
  "in_1_to_10 v = (v \<ge> 1 \<and> v \<le> 10)"

definition fmea_checks :: "FMEAItem \<Rightarrow> sql_error + FMEAItem" where
  "fmea_checks row =
     (if \<not> in_1_to_10 (severity row) then Inl (check_violation ''severity'')
      else if \<not> in_1_to_10 (occurrence row) then Inl (check_violation ''occurrence'')
      else if \<not> in_1_to_10 (detection row) then Inl (check_violation ''detection'')
      else Inr row)"

definition generate_rpn :: "FMEAItem \<Rightarrow> FMEAItem" where
  "generate_rpn row = row\<lparr>rpn := severity row * occurrence row * detection row\<rparr>"

definition insert_fmea_item :: "string \<Rightarrow> string \<Rightarrow> fmea_insert \<Rightarrow> sql_error + FMEAItem" where
  "insert_fmea_item new_id projectId v =
     (if ins_rpn v \<noteq> None then Inl (generated_always ''rpn'')
      else fmea_checks (generate_rpn
             \<lparr>fmea_id = new_id, fmea_project_id = projectId,
              failure_mode = ins_failure_mode v, effects = ins_effects v, causes = ins_causes v,
              severity = ins_severity v, occurrence = ins_occurrence v,
              detection = ins_detection v, rpn = 0\<rparr>))"

definition update_fmea_item :: "FMEAItem \<Rightarrow> fmea_update \<Rightarrow> sql_error + FMEAItem" where
  "update_fmea_item row u =
     (if upd_rpn u \<noteq> None then Inl (generated_always ''rpn'')
      else fmea_checks (generate_rpn
             (row\<lparr>severity := (case upd_severity u of None \<Rightarrow> severity row | Some v \<Rightarrow> v),
                  occurrence := (case upd_occurrence u of None \<Rightarrow> occurrence row | Some v \<Rightarrow> v),
                  detection := (case upd_detection u of None \<Rightarrow> detection row | Some v \<Rightarrow> v)\<rparr>)))"

text \<open>
  The rows the table can hold: those that some sequence of inserts and updates
  produces.
\<close>

inductive stored_fmea_item :: "FMEAItem \<Rightarrow> bool" where
  inserted: "insert_fmea_item new_id projectId v = Inr row \<Longrightarrow> stored_fmea_item row"
| updated: "stored_fmea_item row \<Longrightarrow> update_fmea_item row u = Inr row' \<Longrightarrow> stored_fmea_item row'"

text \<open>The constraints of a row: the three CHECKs and the generated column.\<close>

definition fmea_row_ok :: "FMEAItem \<Rightarrow> bool" where
  "fmea_row_ok row =
     (in_1_to_10 (severity row) \<and> in_1_to_10 (occurrence row) \<and> in_1_to_10 (detection row) \<and>
      rpn row = severity row * occurrence row * detection row)"

subsection \<open>AnalyzePhase: adding and deleting risk items\<close>

text \<open>
  The Analyze tab holds the list \<open>fmeaItems\<close> and the form \<open>newFmea\<close>; the store holds
  the rows of table \<open>fmea_items\<close> and the project's row. \<open>addFmea\<close> returns at once for
  an empty failure mode. Otherwise it inserts the form's values; if a row comes back
  it puts the row into the list, sorted by risk priority number, descending, and
  resets the form; then it calls \<open>updateProjectRisk\<close>. That call reads the list
  \<open>fmeaItems\<close> of the rendering in which \<open>addFmea\<close> was created: the list before the
  insert. \<open>deleteFmea\<close> reads the list before the deletion in the same way.
\<close>

record newFmea =
  nf_failure_mode :: string
  nf_effects :: string
  nf_causes :: string
  nf_severity :: int
  nf_occurrence :: int
  nf_detection :: int


record AnalyzePhase_world =
  w_fmeaItems :: "FMEAItem list"
  w_newFmea :: newFmea
  w_table :: "FMEAItem list"
  w_project :: Project




definition deleteFmea :: "string \<Rightarrow> AnalyzePhase_world \<Rightarrow> AnalyzePhase_world" where
  "deleteFmea ident w =
     w\<lparr>w_table := filter (\<lambda>f. fmea_id f \<noteq> ident) (w_table w),
       w_fmeaItems := filter (\<lambda>f. fmea_id f \<noteq> ident) (w_fmeaItems w),
       w_project := updateProjectRisk (w_fmeaItems w) (w_project w)\<rparr>"

section \<open>Protocol server (mcp-server/six-sigma-server.js)\<close>

subsection \<open>Solution generation and evaluation\<close>

text \<open>
  The server's candidate solutions carry an expected improvement in percent, effort and
  risk labels and a cost in dollars. \<open>evaluateSolutions\<close> turns them into four
  normalised scores and a weighted total.
\<close>

datatype level = LEVEL_LOW | LEVEL_MEDIUM | LEVEL_HIGH

record js_solution =
  js_name :: string
  js_description :: string
  expected_improvement :: real
  effort :: level
  risk :: level
  cost :: real

record js_scored_solution = js_solution +
  score :: real

definition js_generateSolutions :: "string \<Rightarrow> js_solution list" where
  "js_generateSolutions approach =
     (if approach = ''incremental'' then
        [\<lparr>js_name = ''Quick Wins Package'',
          js_description = ''Implement caching and query optimization'',
          expected_improvement = 25, effort = LEVEL_LOW, risk = LEVEL_LOW, cost = 10000\<rparr>]
      else if approach = ''redesign'' then
        [\<lparr>js_name = ''Architecture Redesign'',
          js_description = ''Microservices architecture with event-driven design'',
          expected_improvement = 60, effort = LEVEL_HIGH, risk = LEVEL_MEDIUM, cost = 100000\<rparr>,
         \<lparr>js_name = ''Performance Optimization Suite'',
          js_description = ''Database sharding, CDN, and edge computing'',
          expected_improvement = 45, effort = LEVEL_MEDIUM, risk = LEVEL_LOW, cost = 50000\<rparr>]
      else if approach = ''innovative'' then
        [\<lparr>js_name = ''AI-Powered Auto-Scaling'',
          js_description = ''Machine learning based predictive scaling'',
          expected_improvement = 70, effort = LEVEL_HIGH, risk = LEVEL_HIGH, cost = 150000\<rparr>]
      else [])
     @ [\<lparr>js_name = ''Monitoring Enhancement'',
         js_description = ''Comprehensive observability platform'',
         expected_improvement = 20, effort = LEVEL_LOW, risk = LEVEL_LOW, cost = 20000\<rparr>]"

definition impactScore :: "js_solution \<Rightarrow> real" where
  "impactScore solution = expected_improvement solution / 100"

definition effortScore :: "js_solution \<Rightarrow> real" where
  "effortScore solution =
     (if effort solution = LEVEL_LOW then 1 else if effort solution = LEVEL_MEDIUM then 0.5 else 0.25)"

definition riskScore :: "js_solution \<Rightarrow> real" where
  "riskScore solution =
     (if risk solution = LEVEL_LOW then 1 else if risk solution = LEVEL_MEDIUM then 0.7 else 0.4)"

definition costScore :: "js_solution \<Rightarrow> real" where
  "costScore solution = 1 - (cost solution / 200000)"

definition totalScore :: "js_solution \<Rightarrow> real" where
  "totalScore solution =
     (impactScore solution * 0.4) + (effortScore solution * 0.2) +
     (riskScore solution * 0.2) + (costScore solution * 0.2)"

definition scoreSolution :: "js_solution \<Rightarrow> js_scored_solution" where
  "scoreSolution solution = js_solution.extend solution \<lparr>score = totalScore solution\<rparr>"

record js_evaluation =
  all_solutions :: "js_scored_solution list"
  selected_solution :: "js_scored_solution option"

text \<open>
  \<open>scoredSolutions.sort((a, b) => b.score - a.score)\<close>, then the first element
  (\<open>undefined\<close> for an empty array, here \<open>None\<close>).
\<close>

definition js_evaluateSolutions :: "js_solution list \<Rightarrow> js_evaluation" where
  "js_evaluateSolutions sols =
     (let scoredSolutions = sort_key (\<lambda>s. - score s) (map scoreSolution sols)
      in \<lparr>all_solutions = scoredSolutions,
          selected_solution = (case scoredSolutions of [] \<Rightarrow> None | s # _ \<Rightarrow> Some s)\<rparr>)"

subsection \<open>Project state of the protocol server\<close>

text \<open>
  A project of the server is an object in the server's map. Its phase is one of the
  strings DEFINE to COMPLETED, its risk level one of UNKNOWN, LOW, MEDIUM, HIGH. Time
  stamps come from the clock and are passed in as \<open>now\<close>. Of the generated artifact
  payloads (canned analyses, plans and check lists) the model keeps what the server
  reads back when it decides something: the FMEA summary and the evaluated solutions;
  every artifact keeps its \<open>completed_at\<close> stamp, so that its presence and its
  rewriting are visible.
\<close>

datatype server_risk = RISK_UNKNOWN | RISK_LOW | RISK_MEDIUM | RISK_HIGH

datatype phase_state = NOT_STARTED | IN_PROGRESS string | STATUS_COMPLETED string

record js_phase_status =
  status_DEFINE :: phase_state
  status_MEASURE :: phase_state
  status_ANALYZE :: phase_state
  status_IMPROVE :: phase_state
  status_CONTROL :: phase_state

record js_failure_mode =
  fm_mode :: string
  fm_severity :: int
  fm_occurrence :: int
  fm_detection :: int
  fm_rpn :: int
  fm_risk_level :: string

record js_fmea =
  failure_modes :: "js_failure_mode list"
  high_risk_count :: nat
  total_rpn :: int
  average_rpn :: int

record js_analyze_artifacts =
  an_fmea :: js_fmea
  an_analysis_depth :: string
  an_completed_at :: string

record js_improve_artifacts =
  im_proposed_solutions :: "js_solution list"
  im_solution_evaluation :: js_evaluation
  im_approach :: string
  im_completed_at :: string

record js_artifacts =
  art_define :: "string option"
  art_measure :: "string option"
  art_analyze :: "js_analyze_artifacts option"
  art_improve :: "js_improve_artifacts option"
  art_control :: "string option"

record js_metrics =
  m_quality_score :: int
  m_phase_completion :: int
  m_risk_level :: server_risk

record js_project =
  js_id :: string
  js_pname :: string
  js_business_case :: string
  js_requirements :: "string list"
  js_deployment_target :: string
  js_budget_limit :: real
  js_timeline_days :: real
  js_created_at :: string
  js_current_phase :: phase
  js_phase_status :: js_phase_status
  js_artifacts :: js_artifacts
  js_metrics :: js_metrics
  js_gate_criteria :: "(phase \<times> (string \<times> bool) list) list"

text \<open>\<open>initializePhaseGates\<close>: the names of the gate criteria of each phase.\<close>

definition phaseGates :: "(phase \<times> string list) list" where
  "phaseGates =
     [(DEFINE, [''voc_complete'', ''ctq_defined'', ''constraints_documented'', ''sipoc_created'']),
      (MEASURE, [''kpis_defined'', ''baseline_established'', ''measurement_system_validated'']),
      (ANALYZE, [''root_cause_identified'', ''fmea_complete'', ''statistical_analysis'']),
      (IMPROVE, [''solution_generated'', ''pilot_tested'', ''risk_mitigation'']),
      (CONTROL, [''control_plan'', ''monitoring_setup'', ''training_complete''])]"

datatype js_error =
    ProjectNotFound
  | CannotExecutePhase phase phase
  | TypeError

record js_create_args =
  arg_project_name :: string
  arg_business_case :: string
  arg_requirements :: "string list"
  arg_deployment_target :: "string option"
  arg_budget_limit :: "real option"
  arg_timeline_days :: "real option"

text \<open>
  \<open>x || d\<close> on an optional number: the default also replaces 0.
\<close>

definition or_default :: "real option \<Rightarrow> real \<Rightarrow> real" where
  "or_default v d = (case v of None \<Rightarrow> d | Some x \<Rightarrow> if x = 0 then d else x)"

definition js_createProject :: "js_create_args \<Rightarrow> string \<Rightarrow> string \<Rightarrow> js_project" where
  "js_createProject args projectId now =
     \<lparr>js_id = projectId,
      js_pname = arg_project_name args,
      js_business_case = arg_business_case args,
      js_requirements = arg_requirements args,
      js_deployment_target =
        (case arg_deployment_target args of
           None \<Rightarrow> ''Not specified''
         | Some t \<Rightarrow> if t = '''' then ''Not specified'' else t),
      js_budget_limit = or_default (arg_budget_limit args) 0,
      js_timeline_days = or_default (arg_timeline_days args) 90,
      js_created_at = now,
      js_current_phase = DEFINE,
      js_phase_status =
        \<lparr>status_DEFINE = IN_PROGRESS now, status_MEASURE = NOT_STARTED,
         status_ANALYZE = NOT_STARTED, status_IMPROVE = NOT_STARTED,
         status_CONTROL = NOT_STARTED\<rparr>,
      js_artifacts =
        \<lparr>art_define = None, art_measure = None, art_analyze = None,
         art_improve = None, art_control = None\<rparr>,
      js_metrics = \<lparr>m_quality_score = 0, m_phase_completion = 0, m_risk_level = RISK_UNKNOWN\<rparr>,
      js_gate_criteria = []\<rparr>"

subsection \<open>Metrics of the protocol server\<close>

text \<open>
  \<open>calculateQualityScore\<close>: 0.4 times the phase completion, 30 times the share of gate
  criteria recorded as met among the criteria of all five phases, and 30, 20 or 10
  points for the risk level; rounded by \<open>Math.round\<close>.
\<close>

definition totalGates :: nat where
  "totalGates = foldl (\<lambda>sum ph. sum + length (snd ph)) 0 phaseGates"

definition metGates :: "js_project \<Rightarrow> nat" where
  "metGates project =
     foldl (\<lambda>sum ph. sum + length (filter (\<lambda>c. snd c) (snd ph))) 0 (js_gate_criteria project)"

definition risk_points :: "server_risk \<Rightarrow> real" where
  "risk_points r = (if r = RISK_LOW then 30 else if r = RISK_MEDIUM then 20 else 10)"

definition calculateQualityScore :: "js_project \<Rightarrow> int" where
  "calculateQualityScore project =
     Math_round
       (real_of_int (m_phase_completion (js_metrics project)) * 0.4
        + (real (metGates project) / real totalGates) * 30
        + risk_points (m_risk_level (js_metrics project)))"

text \<open>
  \<open>conductFMEA\<close>: four fixed failure modes, a fifth for the comprehensive depth, and
  their summary. \<open>calculateRiskLevel\<close> reads the rounded average.
\<close>

definition js_failureModes :: "string \<Rightarrow> js_failure_mode list" where
  "js_failureModes depth =
     [\<lparr>fm_mode = ''Database connection failure'', fm_severity = 9, fm_occurrence = 3,
       fm_detection = 2, fm_rpn = 54, fm_risk_level = ''HIGH''\<rparr>,
      \<lparr>fm_mode = ''API timeout'', fm_severity = 7, fm_occurrence = 5,
       fm_detection = 3, fm_rpn = 105, fm_risk_level = ''HIGH''\<rparr>,
      \<lparr>fm_mode = ''Memory leak'', fm_severity = 8, fm_occurrence = 2,
       fm_detection = 7, fm_rpn = 112, fm_risk_level = ''HIGH''\<rparr>,
      \<lparr>fm_mode = ''Authentication failure'', fm_severity = 6, fm_occurrence = 2,
       fm_detection = 2, fm_rpn = 24, fm_risk_level = ''MEDIUM''\<rparr>]
     @ (if depth = ''comprehensive''
        then [\<lparr>fm_mode = ''Data corruption'', fm_severity = 10, fm_occurrence = 1,
                fm_detection = 5, fm_rpn = 50, fm_risk_level = ''HIGH''\<rparr>]
        else [])"

definition conductFMEA :: "string \<Rightarrow> js_fmea" where
  "conductFMEA depth =
     (let failureModes = js_failureModes depth;
          highRiskModes = filter (\<lambda>fm. fm_risk_level fm = ''HIGH'') failureModes;
          totalRPN = foldl (\<lambda>sum fm. sum + fm_rpn fm) 0 failureModes
      in \<lparr>failure_modes = failureModes,
          high_risk_count = length highRiskModes,
          total_rpn = totalRPN,
          average_rpn = Math_round (real_of_int totalRPN / real (length failureModes))\<rparr>)"

definition calculateRiskLevel :: "js_fmea option \<Rightarrow> server_risk" where
  "calculateRiskLevel fmea =
     (case fmea of
        None \<Rightarrow> RISK_UNKNOWN
      | Some f \<Rightarrow>
          (let avgRPN = average_rpn f
           in if avgRPN > 100 then RISK_HIGH else if avgRPN > 50 then RISK_MEDIUM else RISK_LOW))"

subsection \<open>Phase operations of the protocol server\<close>

text \<open>
  Each operation first looks the project up (\<open>None\<close>: not in the map). An error is
  thrown before anything is written, so \<open>Inl\<close> leaves the stored project as it was.
\<close>

definition set_gate_criteria ::
  "phase \<Rightarrow> (string \<times> bool) list \<Rightarrow> (phase \<times> (string \<times> bool) list) list
     \<Rightarrow> (phase \<times> (string \<times> bool) list) list" where
  "set_gate_criteria ph v gc =
     (if ph \<in> set (map fst gc) then map (\<lambda>e. if fst e = ph then (ph, v) else e) gc
      else gc @ [(ph, v)])"

definition with_quality_score :: "js_project \<Rightarrow> js_project" where
  "with_quality_score project =
     project\<lparr>js_metrics := (js_metrics project)\<lparr>m_quality_score := calculateQualityScore project\<rparr>\<rparr>"

definition js_definePhase :: "js_project option \<Rightarrow> string \<Rightarrow> js_error + js_project" where
  "js_definePhase found now =
     (case found of
        None \<Rightarrow> Inl ProjectNotFound
      | Some project \<Rightarrow>
          if js_current_phase project \<noteq> DEFINE
          then Inl (CannotExecutePhase DEFINE (js_current_phase project))
          else Inr (with_quality_score
                 (project\<lparr>js_artifacts := (js_artifacts project)\<lparr>art_define := Some now\<rparr>,
                           js_gate_criteria :=
                             set_gate_criteria DEFINE
                               [(''voc_complete'', True), (''ctq_defined'', True),
                                (''constraints_documented'', True), (''sipoc_created'', True)]
                               (js_gate_criteria project),
                           js_metrics := (js_metrics project)\<lparr>m_phase_completion := 20\<rparr>\<rparr>)))"

definition js_measurePhase :: "js_project option \<Rightarrow> string \<Rightarrow> js_error + js_project" where
  "js_measurePhase found now =
     (case found of
        None \<Rightarrow> Inl ProjectNotFound
      | Some project \<Rightarrow>
          if js_current_phase project \<noteq> DEFINE \<and> js_current_phase project \<noteq> MEASURE
          then Inl (CannotExecutePhase MEASURE (js_current_phase project))
          else if art_define (js_artifacts project) = None then Inl TypeError
          else Inr (with_quality_score
                 (project\<lparr>js_artifacts := (js_artifacts project)\<lparr>art_measure := Some now\<rparr>,
                           js_current_phase := ANALYZE,
                           js_phase_status := (js_phase_status project)
                             \<lparr>status_MEASURE := STATUS_COMPLETED now,
                              status_ANALYZE := IN_PROGRESS now\<rparr>,
                           js_metrics := (js_metrics project)\<lparr>m_phase_completion := 40\<rparr>\<rparr>)))"

definition js_analyzePhase :: "js_project option \<Rightarrow> string option \<Rightarrow> string \<Rightarrow> js_error + js_project" where
  "js_analyzePhase found analysis_depth now =
     (case found of
        None \<Rightarrow> Inl ProjectNotFound
      | Some project \<Rightarrow>
          (let analysisDepth =
                 (case analysis_depth of
                    None \<Rightarrow> ''standard''
                  | Some d \<Rightarrow> if d = '''' then ''standard'' else d);
               fmea = conductFMEA analysisDepth
           in Inr (project\<lparr>js_artifacts := (js_artifacts project)
                               \<lparr>art_analyze := Some \<lparr>an_fmea = fmea,
                                  an_analysis_depth = analysisDepth, an_completed_at = now\<rparr>\<rparr>,
                            js_current_phase := IMPROVE,
                            js_phase_status := (js_phase_status project)
                              \<lparr>status_ANALYZE := STATUS_COMPLETED now,
                               status_IMPROVE := IN_PROGRESS now\<rparr>,
                            js_metrics := (js_metrics project)
                              \<lparr>m_phase_completion := 60,
                               m_risk_level := calculateRiskLevel (Some fmea)\<rparr>\<rparr>)))"

definition js_improvePhase :: "js_project option \<Rightarrow> string option \<Rightarrow> string \<Rightarrow> js_error + js_project" where
  "js_improvePhase found solution_approach now =
     (case found of
        None \<Rightarrow> Inl ProjectNotFound
      | Some project \<Rightarrow>
          (let approach =
                 (case solution_approach of
                    None \<Rightarrow> ''redesign''
                  | Some a \<Rightarrow> if a = '''' then ''redesign'' else a);
               sols = js_generateSolutions approach;
               evaluation = js_evaluateSolutions sols
           in Inr (with_quality_score
                 (project\<lparr>js_artifacts := (js_artifacts project)
                               \<lparr>art_improve := Some \<lparr>im_proposed_solutions = sols,
                                  im_solution_evaluation = evaluation, im_approach = approach,
                                  im_completed_at = now\<rparr>\<rparr>,
                            js_current_phase := CONTROL,
                            js_phase_status := (js_phase_status project)
                              \<lparr>status_IMPROVE := STATUS_COMPLETED now,
                               status_CONTROL := IN_PROGRESS now\<rparr>,
                            js_metrics := (js_metrics project)\<lparr>m_phase_completion := 80\<rparr>\<rparr>))))"

definition js_controlPhase :: "js_project option \<Rightarrow> string \<Rightarrow> js_error + js_project" where
  "js_controlPhase found now =
     (case found of
        None \<Rightarrow> Inl ProjectNotFound
      | Some project \<Rightarrow>
          Inr (with_quality_score
                 (project\<lparr>js_artifacts := (js_artifacts project)\<lparr>art_control := Some now\<rparr>,
                           js_current_phase := COMPLETED,
                           js_phase_status := (js_phase_status project)
                             \<lparr>status_CONTROL := STATUS_COMPLETED now\<rparr>,
                           js_metrics := (js_metrics project)\<lparr>m_phase_completion := 100\<rparr>\<rparr>)))"

section \<open>Protocol server in TypeScript (mcp-server/src/index.ts)\<close>

subsection \<open>Process capability\<close>

record ts_KPI =
  ts_name :: string
  ts_description :: string
  ts_unit :: string
  ts_target :: real
  ts_current_value :: "real option"
  ts_measurement_frequency :: string

text \<open>
  \<open>analyzeProcessCapability\<close> reads the KPIs and the baselines (an object from KPI
  names to numbers) of the Measure artifacts. \<open>baselines[kpi.name] || 0\<close> is 0 for a
  missing name.
\<close>

record ts_MeasureData =
  ts_kpis :: "ts_KPI list"
  ts_baselines :: "string \<rightharpoonup> real"

definition baseline_of :: "ts_MeasureData \<Rightarrow> ts_KPI \<Rightarrow> real" where
  "baseline_of measureData kpi =
     (case ts_baselines measureData (ts_name kpi) of None \<Rightarrow> 0 | Some v \<Rightarrow> v)"

text \<open>
  The loop over the KPIs: one opportunity per KPI, one defect where the baseline is
  below 90 percent of the target.
\<close>

fun count_defects :: "ts_MeasureData \<Rightarrow> ts_KPI list \<Rightarrow> nat \<times> nat \<Rightarrow> nat \<times> nat" where
  "count_defects measureData [] acc = acc"
| "count_defects measureData (kpi # rest) (totalDefects, totalOpportunities) =
     count_defects measureData rest
       ((if baseline_of measureData kpi < ts_target kpi * 0.9 then totalDefects + 1 else totalDefects),
        totalOpportunities + 1)"

definition defectRate :: "ts_MeasureData \<Rightarrow> real" where
  "defectRate measureData =
     (case count_defects measureData (ts_kpis measureData) (0, 0) of
        (totalDefects, totalOpportunities) \<Rightarrow> real totalDefects / real totalOpportunities)"

definition sigmaLevel :: "real \<Rightarrow> nat" where
  "sigmaLevel dpmo =
     (if dpmo > 690000 then 1
      else if dpmo > 308000 then 2
      else if dpmo > 66800 then 3
      else if dpmo > 6210 then 4
      else if dpmo > 233 then 5
      else 6)"

text \<open>
  With no KPI the defect rate is 0 / 0, not a number: every comparison with it is
  false, which leaves the sigma level at 6, and the other three fields are not
  numbers (\<open>None\<close>).
\<close>

record ProcessCapability =
  cp :: "real option"
  cpk :: "real option"
  sigma_level :: nat
  defects_per_million :: "real option"

definition analyzeProcessCapability :: "ts_MeasureData \<Rightarrow> ProcessCapability" where
  "analyzeProcessCapability measureData =
     (if ts_kpis measureData = []
      then \<lparr>cp = None, cpk = None, sigma_level = 6, defects_per_million = None\<rparr>
      else (let dpmo = defectRate measureData * 1000000;
                cp_raw = 1.33 - (defectRate measureData * 2);
                cpk_raw = cp_raw * 0.9
            in \<lparr>cp = Some (max 0.5 cp_raw),
                cpk = Some (max 0.4 cpk_raw),
                sigma_level = sigmaLevel dpmo,
                defects_per_million = Some dpmo\<rparr>))"

subsection \<open>Strings\<close>






subsection \<open>Define phase\<close>

text \<open>
  The project state of this server. Its phase enumeration has no completed phase: the
  Control phase ends in NONE. Of the Define artifacts the model keeps what the quality
  gate reads and what those values are computed from; the stakeholder needs, the
  time line of the constraints (read from the clock) and the copies that the server
  puts into its shared resources are not modelled. \<open>Math.ceil\<close> is taken on the exact
  product.
\<close>

datatype ts_phase = T_NONE | T_DEFINE | T_MEASURE | T_ANALYZE | T_IMPROVE | T_CONTROL


















section \<open>Quality gate manager of the agent-based server (shared/quality-gates.ts)\<close>

text \<open>
  \<open>QualityGateManager\<close> keeps, for each of the five transitions, a list of named
  criteria, each with a validator that reads the project state. Of the project state
  and the artifact types (types/index.ts) the model keeps the fields that the
  validators read; a field that a validator probes with \<open>?.\<close> or tests for truth is an
  \<open>option\<close> (or, for a string, empty when missing).
\<close>

datatype DMAICPhase = D_DEFINE | D_MEASURE | D_ANALYZE | D_IMPROVE | D_CONTROL | D_COMPLETE

record PriorityMatrix =
  must_have :: "string list option"

record VOCAnalysis =
  customer_needs :: "string list option"
  priority_matrix :: "PriorityMatrix option"

record CTQNeed =
  drivers :: "string list"
  metrics :: "string list option"

record CTQTree =
  tree_customer_needs :: "(string \<times> CTQNeed) list option"

record ProjectConstraints =
  has_technical :: bool
  has_deployment :: bool
  has_budget :: bool

record ProjectCharter =
  problem_statement :: string
  goal_statement :: string
  deliverables :: "string list option"

record DefineArtifacts =
  voc_analysis :: "VOCAnalysis option"
  ctq_tree :: "CTQTree option"
  constraints :: "ProjectConstraints option"
  project_charter :: "ProjectCharter option"

record gate_KPI =
  gk_name :: string
  gk_target :: "real option"

record MeasureArtifacts =
  kpis :: "gate_KPI list option"

text \<open>
  The failure modes of the Analyze artifacts (\<open>artifacts.analyze.fmea.failure_modes\<close>)
  are carried by name only: no validator reads them.
\<close>

record ProjectState =
  ps_define :: "DefineArtifacts option"
  ps_measure :: "MeasureArtifacts option"
  ps_analyze_failure_modes :: "string list option"

record CriteriaResult =
  criterion :: string
  passed :: bool

definition validateVOCComplete :: "ProjectState \<Rightarrow> CriteriaResult" where
  "validateVOCComplete project =
     (let hasVOC =
        (case ps_define project of
           None \<Rightarrow> False
         | Some define \<Rightarrow>
             (case voc_analysis define of
                None \<Rightarrow> False
              | Some voc \<Rightarrow>
                  (case customer_needs voc of None \<Rightarrow> False | Some needs \<Rightarrow> length needs > 0) \<and>
                  (case priority_matrix voc of
                     None \<Rightarrow> False
                   | Some pm \<Rightarrow> (case must_have pm of None \<Rightarrow> False | Some m \<Rightarrow> length m > 0))))
      in \<lparr>criterion = ''VOC_COMPLETE'', passed = hasVOC\<rparr>)"

definition validateCTQDefined :: "ProjectState \<Rightarrow> CriteriaResult" where
  "validateCTQDefined project =
     (let needs =
        (case ps_define project of
           None \<Rightarrow> None
         | Some define \<Rightarrow>
             (case ctq_tree define of
                None \<Rightarrow> None
              | Some tree \<Rightarrow> Some (case tree_customer_needs tree of None \<Rightarrow> [] | Some ns \<Rightarrow> ns)));
          hasCTQ = (case needs of None \<Rightarrow> False | Some ns \<Rightarrow> length ns > 0);
          metricsCount =
            (if hasCTQ
             then foldl (\<lambda>n need. n + (case metrics (snd need) of None \<Rightarrow> 0 | Some ms \<Rightarrow> length ms))
                    0 (case needs of None \<Rightarrow> [] | Some ns \<Rightarrow> ns)
             else 0)
      in \<lparr>criterion = ''CTQ_DEFINED'', passed = (hasCTQ \<and> metricsCount > 0)\<rparr>)"

definition validateConstraintsDocumented :: "ProjectState \<Rightarrow> CriteriaResult" where
  "validateConstraintsDocumented project =
     (let hasConstraints =
        (case ps_define project of
           None \<Rightarrow> False
         | Some define \<Rightarrow>
             (case constraints define of
                None \<Rightarrow> False
              | Some c \<Rightarrow> has_technical c \<and> has_deployment c \<and> has_budget c))
      in \<lparr>criterion = ''CONSTRAINTS_DOCUMENTED'', passed = hasConstraints\<rparr>)"

definition validateProjectCharter :: "ProjectState \<Rightarrow> CriteriaResult" where
  "validateProjectCharter project =
     (let hasCharter =
        (case ps_define project of
           None \<Rightarrow> False
         | Some define \<Rightarrow>
             (case project_charter define of
                None \<Rightarrow> False
              | Some ch \<Rightarrow>
                  problem_statement ch \<noteq> '''' \<and> goal_statement ch \<noteq> '''' \<and>
                  (case deliverables ch of None \<Rightarrow> False | Some d \<Rightarrow> length d > 0)))
      in \<lparr>criterion = ''PROJECT_CHARTER_APPROVED'', passed = hasCharter\<rparr>)"

definition validateKPIsDefined :: "ProjectState \<Rightarrow> CriteriaResult" where
  "validateKPIsDefined project =
     (let ks = (case ps_measure project of None \<Rightarrow> None | Some measureArtifacts \<Rightarrow> kpis measureArtifacts);
          kpiCount = (case ks of None \<Rightarrow> 0 | Some l \<Rightarrow> length l);
          hasValidKPIs =
            (kpiCount > 0 \<and>
             (case ks of None \<Rightarrow> False | Some l \<Rightarrow> list_all (\<lambda>kpi. gk_target kpi \<noteq> None) l))
      in \<lparr>criterion = ''KPIS_DEFINED'', passed = hasValidKPIs\<rparr>)"

definition createPlaceholderResult :: "string \<Rightarrow> bool \<Rightarrow> CriteriaResult" where
  "createPlaceholderResult name ok = \<lparr>criterion = name, passed = ok\<rparr>"

text \<open>The remaining validators are placeholders that pass for every project.\<close>

definition gatesCriteria :: "DMAICPhase \<Rightarrow> DMAICPhase \<Rightarrow> (ProjectState \<Rightarrow> CriteriaResult) list option" where
  "gatesCriteria fromPhase toPhase =
     (if fromPhase = D_DEFINE \<and> toPhase = D_MEASURE then
        Some [validateVOCComplete, validateCTQDefined, validateConstraintsDocumented,
              validateProjectCharter]
      else if fromPhase = D_MEASURE \<and> toPhase = D_ANALYZE then
        Some [validateKPIsDefined,
              (\<lambda>project. createPlaceholderResult ''BASELINES_ESTABLISHED'' True),
              (\<lambda>project. createPlaceholderResult ''MEASUREMENT_PLAN_COMPLETE'' True)]
      else if fromPhase = D_ANALYZE \<and> toPhase = D_IMPROVE then
        Some [(\<lambda>project. createPlaceholderResult ''ROOT_CAUSES_IDENTIFIED'' True),
              (\<lambda>project. createPlaceholderResult ''FMEA_COMPLETE'' True),
              (\<lambda>project. createPlaceholderResult ''PROCESS_INEFFICIENCIES_MAPPED'' True)]
      else if fromPhase = D_IMPROVE \<and> toPhase = D_CONTROL then
        Some [(\<lambda>project. createPlaceholderResult ''SOLUTION_VALIDATED'' True),
              (\<lambda>project. createPlaceholderResult ''PILOT_SUCCESSFUL'' True),
              (\<lambda>project. createPlaceholderResult ''IMPLEMENTATION_PLAN_READY'' True)]
      else if fromPhase = D_CONTROL \<and> toPhase = D_COMPLETE then
        Some [(\<lambda>project. createPlaceholderResult ''CONTROL_PLAN_ACTIVE'' True),
              (\<lambda>project. createPlaceholderResult ''MONITORING_OPERATIONAL'' True),
              (\<lambda>project. createPlaceholderResult ''TRAINING_COMPLETE'' True),
              (\<lambda>project. createPlaceholderResult ''METRICS_STABLE'' True)]
      else None)"

datatype gate_error = NoQualityGateDefined DMAICPhase DMAICPhase

record QualityGateResult =
  gate_passed :: bool
  criteria_results :: "CriteriaResult list"
  overall_score :: real

text \<open>
  \<open>evaluateGate\<close>: the validators run in order, the passed ones are counted, and the
  gate passes when their share is at least 80 percent.
\<close>

definition evaluateGate :: "ProjectState \<Rightarrow> DMAICPhase \<Rightarrow> DMAICPhase \<Rightarrow> gate_error + QualityGateResult" where
  "evaluateGate project fromPhase toPhase =
     (case gatesCriteria fromPhase toPhase of
        None \<Rightarrow> Inl (NoQualityGateDefined fromPhase toPhase)
      | Some criteria \<Rightarrow>
          (let criteriaResults = map (\<lambda>validator. validator project) criteria;
               passedCount = length (filter passed criteriaResults);
               overallScore = (real passedCount / real (length criteria)) * 100
           in Inr \<lparr>gate_passed = (overallScore \<ge> 80),
                   criteria_results = criteriaResults,
                   overall_score = overallScore\<rparr>))"

definition project_without_artifacts :: ProjectState where
  "project_without_artifacts =
     \<lparr>ps_define = None, ps_measure = None, ps_analyze_failure_modes = None\<rparr>"

section \<open>The specification's formulas and example inputs\<close>

text \<open>
  The composite quality score in the words of the specification: 0.4 times the phase
  completion, plus 0.3 times the percentage of gate criteria met, plus 0.3 times the
  risk contribution (30 for LOW, 20 for MEDIUM, 10 for HIGH), clamped to 0..100.
\<close>

definition spec_risk_contribution :: "risk_level \<Rightarrow> real" where
  "spec_risk_contribution r = (case r of LOW \<Rightarrow> 30 | MEDIUM \<Rightarrow> 20 | HIGH \<Rightarrow> 10)"

definition spec_quality_score :: "real \<Rightarrow> real \<Rightarrow> real \<Rightarrow> risk_level \<Rightarrow> real" where
  "spec_quality_score phase_completion_pct criteria_met criteria_total r =
     max 0 (min 100
       (0.4 * phase_completion_pct
        + 0.3 * (criteria_met / criteria_total * 100)
        + 0.3 * spec_risk_contribution r))"

text \<open>Example inputs: dashboard projects and snapshots.\<close>

definition example_project :: "phase \<Rightarrow> real \<Rightarrow> Project" where
  "example_project ph completion =
     \<lparr>proj_id = ''p1'', proj_name = ''Checkout latency'', business_case = ''Reduce cart abandonment'',
      deployment_target = ''cloud'', budget_limit = 5000, timeline_days = 90,
      current_phase = ph, quality_score = 0, risk_level = LOW, phase_completion = completion,
      created_at = ''2025-10-11'', updated_at = ''2025-10-11''\<rparr>"

definition empty_snapshot :: snapshot where
  "empty_snapshot =
     \<lparr>snap_requirements = [], snap_ctqItems = [], snap_constraints = [], snap_kpis = [],
      snap_fmeaItems = [], snap_solutions = [],
      snap_controlItems = \<lparr>monitoring = False, documentation = False, validation = False,
                            training = False\<rparr>\<rparr>"

definition example_requirement :: Requirement where
  "example_requirement =
     \<lparr>req_id = ''r1'', req_project_id = ''p1'', requirement = ''Checkout completes in 2 s'',
      req_category = functional, req_priority = PRIORITY_MEDIUM\<rparr>"

definition example_ctq :: CTQItem where
  "example_ctq =
     \<lparr>ctq_id = ''c1'', ctq_project_id = ''p1'', need = ''Fast checkout'', driver = ''Latency'',
      ctq = ''p95 latency'', ctq_target = 200, usl = 0\<rparr>"

definition example_constraint :: Constraint where
  "example_constraint =
     \<lparr>con_id = ''k1'', con_project_id = ''p1'', con_type = technical,
      con_description = ''No schema change'', con_impact = PRIORITY_MEDIUM\<rparr>"

definition define_ready_snapshot :: snapshot where
  "define_ready_snapshot =
     empty_snapshot\<lparr>snap_requirements := [example_requirement], snap_ctqItems := [example_ctq],
                    snap_constraints := [example_constraint]\<rparr>"

definition control_ready_snapshot :: snapshot where
  "control_ready_snapshot =
     empty_snapshot\<lparr>snap_controlItems :=
       \<lparr>monitoring = True, documentation = True, validation = True, training = True\<rparr>\<rparr>"

definition control_training_missing_snapshot :: snapshot where
  "control_training_missing_snapshot =
     empty_snapshot\<lparr>snap_controlItems :=
       \<lparr>monitoring = True, documentation = True, validation = True, training = False\<rparr>\<rparr>"

text \<open>
  Example inputs: a project of the protocol server after \<open>create_project\<close> and after
  each of the phase tools, called in order.
\<close>

definition example_args :: js_create_args where
  "example_args =
     \<lparr>arg_project_name = ''Checkout latency'', arg_business_case = ''Reduce cart abandonment'',
      arg_requirements = [''Checkout must complete in 2 s''],
      arg_deployment_target = None, arg_budget_limit = None, arg_timeline_days = None\<rparr>"

definition js_created :: js_project where
  "js_created = js_createProject example_args ''proj_1'' ''t0''"

definition result_or :: "js_project \<Rightarrow> js_error + js_project \<Rightarrow> js_project" where
  "result_or previous r = (case r of Inl e \<Rightarrow> previous | Inr p \<Rightarrow> p)"

definition js_defined :: js_project where
  "js_defined = result_or js_created (js_definePhase (Some js_created) ''t1'')"

definition js_measured :: js_project where
  "js_measured = result_or js_defined (js_measurePhase (Some js_defined) ''t2'')"

definition js_analyzed :: js_project where
  "js_analyzed = result_or js_measured (js_analyzePhase (Some js_measured) None ''t3'')"

definition js_improved :: js_project where
  "js_improved = result_or js_analyzed (js_improvePhase (Some js_analyzed) None ''t4'')"

definition js_completed :: js_project where
  "js_completed = result_or js_improved (js_controlPhase (Some js_improved) ''t5'')"




section \<open>Properties\<close>

subsection \<open>Helper lemmas: number formatting\<close>

lemma toFixed1_tenths_bounds:
  "\<bar>x\<bar> * 10 - 1 / 2 < real (toFixed1_tenths x) \<and> real (toFixed1_tenths x) \<le> \<bar>x\<bar> * 10 + 1 / 2"
  unfolding toFixed1_tenths_def by linarith

lemma toFixed1_tenths_near: "\<bar>real (toFixed1_tenths x) / 10 - \<bar>x\<bar>\<bar> \<le> 1 / 20"
proof (rule abs_leI)
  show "real (toFixed1_tenths x) / 10 - \<bar>x\<bar> \<le> 1 / 20"
    using toFixed1_tenths_bounds [of x] by linarith
  show "- (real (toFixed1_tenths x) / 10 - \<bar>x\<bar>) \<le> 1 / 20"
    using toFixed1_tenths_bounds [of x] by linarith
qed

subsection \<open>Helper lemmas: ranking\<close>

lemma ranked_desc_sort: "ranked_desc (sort_by_total_score_desc xs)"
proof -
  have "sorted (map (\<lambda>s. - total_score s) (sort_key (\<lambda>s. - total_score s) xs))"
    by (rule sorted_sort_key)
  then show ?thesis
    unfolding ranked_desc_def sort_by_total_score_desc_def
    by (simp add: sorted_wrt_map)
qed

lemma mset_sort_by_total_score_desc: "mset (sort_by_total_score_desc xs) = mset xs"
  unfolding sort_by_total_score_desc_def by simp

lemma ranked_desc_filter: "ranked_desc xs \<Longrightarrow> ranked_desc (filter P xs)"
  unfolding ranked_desc_def by (rule sorted_wrt_filter)

lemma ranked_desc_status:
  "ranked_desc xs \<Longrightarrow>
   ranked_desc (map (\<lambda>s. if sol_id s = i then s\<lparr>sol_status := v\<rparr> else s) xs)"
  unfolding ranked_desc_def by (induction xs) auto

lemma ImprovePhase_step_ranked:
  "ranked_desc (solutions st) \<Longrightarrow> ranked_desc (solutions (ImprovePhase_step st ev))"
  by (cases ev)
     (auto simp: loadSolutions_def addSolution_def deleteSolution_def updateStatus_def Let_def
                 ranked_desc_sort ranked_desc_filter ranked_desc_status
           split: option.splits)

lemma ImprovePhase_foldl_ranked:
  "ranked_desc (solutions st) \<Longrightarrow> ranked_desc (solutions (foldl ImprovePhase_step st evs))"
  by (induction evs arbitrary: st) (auto simp: ImprovePhase_step_ranked)

lemma ImprovePhase_run_ranked: "ranked_desc (solutions (ImprovePhase_run evs))"
  unfolding ImprovePhase_run_def
  by (rule ImprovePhase_foldl_ranked) (simp add: ImprovePhase_initial_def ranked_desc_def)

lemma addSolution_cases:
  "addSolution new_id projectId st = st \<or>
   (\<exists>row. insert_solution new_id projectId (newSolution st) (calculateTotalScore (newSolution st)) = Some row \<and>
          sol_status row = proposed \<and>
          total_score row = calculateTotalScore (newSolution st) \<and>
          mset (solutions (addSolution new_id projectId st)) = mset (solutions st) + {#row#})"
proof (cases "ns_title (newSolution st) = ''''")
  case True
  then show ?thesis by (simp add: addSolution_def)
next
  case False
  show ?thesis
  proof (cases "insert_solution new_id projectId (newSolution st) (calculateTotalScore (newSolution st))")
    case None
    with False show ?thesis by (simp add: addSolution_def)
  next
    case (Some row)
    then have "sol_status row = proposed" "total_score row = calculateTotalScore (newSolution st)"
      by (auto simp: insert_solution_def split: if_splits)
    with Some False show ?thesis
      by (simp add: addSolution_def mset_sort_by_total_score_desc)
  qed
qed

lemma js_evaluateSolutions_ranked:
  "sorted_wrt (\<lambda>a b. score b \<le> score a) (all_solutions (js_evaluateSolutions sols))"
proof -
  have "sorted (map (\<lambda>s. - score s) (sort_key (\<lambda>s. - score s) (map scoreSolution sols)))"
    by (rule sorted_sort_key)
  then show ?thesis
    by (simp add: js_evaluateSolutions_def Let_def sorted_wrt_map)
qed

lemma truncate_scoreSolution: "js_solution.truncate (scoreSolution x) = x"
  by (simp add: scoreSolution_def js_solution.truncate_def js_solution.extend_def)

lemma js_evaluateSolutions_same_solutions:
  "mset (map js_solution.truncate (all_solutions (js_evaluateSolutions sols))) = mset sols"
proof -
  have "mset (map js_solution.truncate (sort_key (\<lambda>s. - score s) (map scoreSolution sols)))
        = image_mset js_solution.truncate (mset (map scoreSolution sols))"
    by (simp only: mset_map mset_sort)
  also have "\<dots> = mset (map (\<lambda>x. js_solution.truncate (scoreSolution x)) sols)"
    by (simp add: multiset.map_comp comp_def)
  also have "\<dots> = mset sols"
    by (simp add: truncate_scoreSolution)
  finally show ?thesis
    by (simp add: js_evaluateSolutions_def Let_def)
qed

lemma js_evaluateSolutions_scores:
  "list_all (\<lambda>s. score s = totalScore (js_solution.truncate s)) (all_solutions (js_evaluateSolutions sols))"
proof -
  have "list_all (\<lambda>s. score s = totalScore (js_solution.truncate s)) (map scoreSolution sols)"
    by (induction sols)
       (simp_all add: truncate_scoreSolution, simp add: scoreSolution_def js_solution.extend_def)
  then show ?thesis
    by (simp add: js_evaluateSolutions_def Let_def list_all_iff)
qed

subsection \<open>Helper lemmas: risk priority numbers\<close>

lemma rpn_product_range:
  assumes "in_1_to_10 s" and "in_1_to_10 c" and "in_1_to_10 d"
  shows "1 \<le> s * c * d \<and> s * c * d \<le> 1000"
proof -
  from assms have s: "1 \<le> s" "s \<le> 10" and c: "1 \<le> c" "c \<le> 10" and d: "1 \<le> d" "d \<le> 10"
    by (simp_all add: in_1_to_10_def)
  have "s * c \<le> 10 * 10" using s c by (intro mult_mono) simp_all
  then have upper2: "s * c \<le> 100" by simp
  have "1 * 1 \<le> s * c" using s c by (intro mult_mono) simp_all
  then have lower2: "1 \<le> s * c" by simp
  have "s * c * d \<le> 100 * 10" using upper2 lower2 d by (intro mult_mono) simp_all
  moreover have "1 * 1 \<le> s * c * d" using lower2 d by (intro mult_mono) simp_all
  ultimately show ?thesis by simp
qed

lemma fmea_checks_Inr:
  "fmea_checks row = Inr row' \<Longrightarrow>
   row' = row \<and> in_1_to_10 (severity row) \<and> in_1_to_10 (occurrence row) \<and> in_1_to_10 (detection row)"
  by (auto simp: fmea_checks_def split: if_splits)

lemma insert_fmea_item_ok: "insert_fmea_item i p v = Inr row \<Longrightarrow> fmea_row_ok row"
  by (auto simp: insert_fmea_item_def fmea_row_ok_def generate_rpn_def
           split: if_splits dest!: fmea_checks_Inr)

lemma update_fmea_item_ok: "update_fmea_item r u = Inr row \<Longrightarrow> fmea_row_ok row"
  by (auto simp: update_fmea_item_def fmea_row_ok_def generate_rpn_def
           split: if_splits dest!: fmea_checks_Inr)

lemma update_fmea_item_fields:
  "update_fmea_item r u = Inr row \<Longrightarrow>
   severity row = (case upd_severity u of None \<Rightarrow> severity r | Some v \<Rightarrow> v) \<and>
   occurrence row = (case upd_occurrence u of None \<Rightarrow> occurrence r | Some v \<Rightarrow> v) \<and>
   detection row = (case upd_detection u of None \<Rightarrow> detection r | Some v \<Rightarrow> v)"
  by (auto simp: update_fmea_item_def generate_rpn_def split: if_splits dest!: fmea_checks_Inr)

lemma stored_fmea_item_ok: "stored_fmea_item row \<Longrightarrow> fmea_row_ok row"
  by (induction rule: stored_fmea_item.induct)
     (auto dest: insert_fmea_item_ok update_fmea_item_ok)

lemma js_failureModes_rpn:
  "list_all (\<lambda>fm. fm_rpn fm = fm_severity fm * fm_occurrence fm * fm_detection fm \<and>
                  1 \<le> fm_rpn fm \<and> fm_rpn fm \<le> 1000)
     (js_failureModes depth)"
  by (simp add: js_failureModes_def)

subsection \<open>Helper lemmas: risk level and process capability\<close>

lemma foldl_rpn_sum:
  "foldl (\<lambda>sum item. sum + rpn item) a xs = a + sum_list (map rpn xs)"
  by (induction xs arbitrary: a) simp_all

lemma foldl_fm_rpn_sum:
  "foldl (\<lambda>sum fm. sum + fm_rpn fm) a xs = a + sum_list (map fm_rpn xs)"
  by (induction xs arbitrary: a) simp_all

lemma avgRpn_average:
  "items \<noteq> [] \<Longrightarrow> avgRpn items = real_of_int (sum_list (map rpn items)) / real (length items)"
  by (simp add: avgRpn_def foldl_rpn_sum)

lemma count_defects_filter:
  "count_defects md ks (a, b) =
     (a + length (filter (\<lambda>k. baseline_of md k < ts_target k * 0.9) ks), b + length ks)"
  by (induction ks arbitrary: a b) simp_all

lemma defectRate_count:
  "defectRate md =
     real (length (filter (\<lambda>k. baseline_of md k < ts_target k * 0.9) (ts_kpis md)))
       / real (length (ts_kpis md))"
  by (simp add: defectRate_def count_defects_filter)

lemma sigmaLevel_steps:
  "sigmaLevel dpmo =
     (if dpmo \<le> 233 then 6 else if dpmo \<le> 6210 then 5 else if dpmo \<le> 66800 then 4
      else if dpmo \<le> 308000 then 3 else if dpmo \<le> 690000 then 2 else 1)"
  by (simp add: sigmaLevel_def)

subsection \<open>Helper lemmas: advancing the phase\<close>

lemma advancePhase_values:
  "current_phase p = DEFINE \<Longrightarrow> advancePhase p = p\<lparr>current_phase := MEASURE, phase_completion := 40\<rparr>"
  "current_phase p = MEASURE \<Longrightarrow> advancePhase p = p\<lparr>current_phase := ANALYZE, phase_completion := 60\<rparr>"
  "current_phase p = ANALYZE \<Longrightarrow> advancePhase p = p\<lparr>current_phase := IMPROVE, phase_completion := 80\<rparr>"
  "current_phase p = IMPROVE \<Longrightarrow> advancePhase p = p\<lparr>current_phase := CONTROL, phase_completion := 100\<rparr>"
  "current_phase p = CONTROL \<Longrightarrow> advancePhase p = p"
  "current_phase p = COMPLETED \<Longrightarrow> advancePhase p = p\<lparr>current_phase := DEFINE, phase_completion := 20\<rparr>"
  by (simp_all add: advancePhase_def phases_def Let_def)

lemma advancePhase_successor:
  assumes "current_phase p \<noteq> CONTROL" and "current_phase p \<noteq> COMPLETED"
  shows "advancePhase p =
           p\<lparr>current_phase := successor (current_phase p),
             phase_completion := (real (phase_index (successor (current_phase p))) + 1) / 5 * 100\<rparr>"
  using assms by (cases "current_phase p") (simp_all add: advancePhase_values)

lemma click_complete_first_four:
  assumes "current_phase p \<noteq> CONTROL" and "current_phase p \<noteq> COMPLETED"
  shows "click_complete p s = (if button_enabled (current_phase p) s then advancePhase p else p)"
  using assms by (cases "current_phase p") (simp_all add: click_complete_def)

lemma click_complete_control:
  assumes "current_phase q = CONTROL"
  shows "click_complete q s =
           (if allItemsComplete (snap_controlItems s)
            then q\<lparr>current_phase := COMPLETED, phase_completion := 100, quality_score := 95\<rparr>
            else q)"
  using assms by (simp add: click_complete_def button_enabled_def markProjectComplete_def)

lemma js_measurePhase_moves:
  assumes "js_current_phase r = DEFINE \<or> js_current_phase r = MEASURE"
    and "art_define (js_artifacts r) \<noteq> None"
  shows "\<exists>r'. js_measurePhase (Some r) now = Inr r' \<and> js_current_phase r' = ANALYZE \<and>
              m_phase_completion (js_metrics r') = 40"
  using assms by (auto simp: js_measurePhase_def with_quality_score_def)

subsection \<open>Helper lemmas: quality score of the protocol server\<close>

lemma totalGates_16: "totalGates = 16"
  by (simp add: totalGates_def phaseGates_def)

lemma calculateQualityScore_formula:
  "calculateQualityScore project =
     Math_round (0.4 * real_of_int (m_phase_completion (js_metrics project))
                 + 30 * (real (metGates project) / 16)
                 + risk_points (m_risk_level (js_metrics project)))"
  by (simp add: calculateQualityScore_def totalGates_16 mult.commute)

lemma calculateQualityScore_ignores_score:
  "calculateQualityScore (project\<lparr>js_metrics := (js_metrics project)\<lparr>m_quality_score := x\<rparr>\<rparr>)
     = calculateQualityScore project"
  by (simp add: calculateQualityScore_def metGates_def)

lemma with_quality_score_consistent:
  "m_quality_score (js_metrics (with_quality_score project)) =
     calculateQualityScore (with_quality_score project)"
  by (simp add: with_quality_score_def calculateQualityScore_ignores_score)

lemma risk_points_range: "10 \<le> risk_points r \<and> risk_points r \<le> 30"
  by (simp add: risk_points_def)

lemma calculateQualityScore_range:
  assumes "0 \<le> m_phase_completion (js_metrics project)"
    and "m_phase_completion (js_metrics project) \<le> 100"
    and "metGates project \<le> 16"
  shows "10 \<le> calculateQualityScore project \<and> calculateQualityScore project \<le> 100"
proof -
  let ?pc = "real_of_int (m_phase_completion (js_metrics project))"
  let ?g = "real (metGates project) / 16"
  let ?x = "0.4 * ?pc + 30 * ?g + risk_points (m_risk_level (js_metrics project))"
  have pc: "0 \<le> ?pc" "?pc \<le> 100" using assms by simp_all
  have g: "0 \<le> ?g" "?g \<le> 1" using assms by simp_all
  have lo: "10 \<le> ?x" using pc g risk_points_range [of "m_risk_level (js_metrics project)"] by simp
  have hi: "?x \<le> 100" using pc g risk_points_range [of "m_risk_level (js_metrics project)"] by simp
  have "\<lfloor>?x + 1 / 2\<rfloor> \<ge> 10" using lo by (simp add: le_floor_iff)
  moreover have "\<lfloor>?x + 1 / 2\<rfloor> \<le> 100" using hi by (simp add: floor_le_iff)
  ultimately show ?thesis
    by (simp add: calculateQualityScore_formula Math_round_def)
qed

lemma js_phase_results_recompute:
  "js_definePhase found now = Inr r' \<Longrightarrow> m_quality_score (js_metrics r') = calculateQualityScore r'"
  "js_measurePhase found now = Inr r' \<Longrightarrow> m_quality_score (js_metrics r') = calculateQualityScore r'"
  "js_improvePhase found approach now = Inr r' \<Longrightarrow> m_quality_score (js_metrics r') = calculateQualityScore r'"
  "js_controlPhase found now = Inr r' \<Longrightarrow> m_quality_score (js_metrics r') = calculateQualityScore r'"
  by (auto simp: js_definePhase_def js_measurePhase_def js_improvePhase_def js_controlPhase_def
        Let_def with_quality_score_consistent split: option.splits if_splits)

subsection \<open>Helper lemmas: the example project of the protocol server\<close>

lemma js_example_define: "js_definePhase (Some js_created) ''t1'' = Inr js_defined"
  by (simp add: js_defined_def js_created_def result_or_def js_createProject_def
        js_definePhase_def)

lemma js_example_measure: "js_measurePhase (Some js_defined) ''t2'' = Inr js_measured"
  by (simp add: js_measured_def js_defined_def js_created_def result_or_def
        js_createProject_def js_definePhase_def js_measurePhase_def with_quality_score_def)

lemma js_example_analyze: "js_analyzePhase (Some js_measured) None ''t3'' = Inr js_analyzed"
  by (simp add: js_analyzed_def result_or_def js_analyzePhase_def Let_def)

lemma js_example_improve: "js_improvePhase (Some js_analyzed) None ''t4'' = Inr js_improved"
  by (simp add: js_improved_def result_or_def js_improvePhase_def Let_def)

lemma js_example_control: "js_controlPhase (Some js_improved) ''t5'' = Inr js_completed"
  by (simp add: js_completed_def result_or_def js_controlPhase_def Let_def)

lemma js_example_values:
  "m_phase_completion (js_metrics js_improved) = 80"
  "metGates js_improved = 4"
  "m_risk_level (js_metrics js_improved) = RISK_MEDIUM"
  "m_quality_score (js_metrics js_improved) = 60"
  "calculateQualityScore js_defined = 26"
  "calculateQualityScore js_measured = 34"
  "calculateQualityScore js_improved = 60"
  "calculateQualityScore js_completed = 68"
  by code_simp+

subsection \<open>Helper lemmas: quality gates\<close>

lemma length_filter_all: "length (filter P xs) = length xs \<longleftrightarrow> list_all P xs"
proof (induction xs)
  case Nil
  then show ?case by simp
next
  case (Cons a xs)
  show ?case
  proof (cases "P a")
    case True
    with Cons show ?thesis by simp
  next
    case False
    have "length (filter P xs) \<noteq> Suc (length xs)"
      using length_filter_le [of P xs] by linarith
    with False show ?thesis by simp
  qed
qed

text \<open>Of at most four criteria, 80 percent are met only when all are.\<close>

lemma eighty_percent_is_all:
  assumes "0 < n" and "n \<le> 4" and "k \<le> n"
  shows "(real k / real n * 100 \<ge> 80) \<longleftrightarrow> k = n"
proof
  assume "k = n"
  with assms show "real k / real n * 100 \<ge> 80" by simp
next
  assume a: "real k / real n * 100 \<ge> 80"
  show "k = n"
  proof (rule ccontr)
    assume "k \<noteq> n"
    with assms have "k + 1 \<le> n" by simp
    then have less: "real k + 1 \<le> real n" by linarith
    from a assms have "real k * 100 \<ge> 80 * real n" by (simp add: field_simps)
    with less have "20 * real n \<ge> 100" by linarith
    with assms show False by simp
  qed
qed

lemma gatesCriteria_length:
  "gatesCriteria f t = Some cs \<Longrightarrow> 0 < length cs \<and> length cs \<le> 4"
  by (auto simp: gatesCriteria_def split: if_splits)

lemma evaluateGate_all:
  assumes "evaluateGate project f t = Inr res"
  shows "gate_passed res \<longleftrightarrow> list_all passed (criteria_results res)"
proof -
  from assms obtain cs where cs: "gatesCriteria f t = Some cs"
    by (auto simp: evaluateGate_def split: option.splits)
  let ?rs = "map (\<lambda>validator. validator project) cs"
  from assms cs
  have res: "gate_passed res = (real (length (filter passed ?rs)) / real (length cs) * 100 \<ge> 80)"
    "criteria_results res = ?rs"
    by (auto simp: evaluateGate_def Let_def)
  have "length (filter passed ?rs) \<le> length cs"
    using length_filter_le [of passed ?rs] by simp
  with gatesCriteria_length [OF cs] eighty_percent_is_all [of "length cs" "length (filter passed ?rs)"]
  have "gate_passed res \<longleftrightarrow> length (filter passed ?rs) = length ?rs"
    by (simp add: res)
  then show ?thesis by (simp only: length_filter_all res(2))
qed

lemma evaluateGate_define:
  "map_sum id gate_passed (evaluateGate pr D_DEFINE D_MEASURE) =
     Inr (passed (validateVOCComplete pr) \<and> passed (validateCTQDefined pr) \<and>
          passed (validateConstraintsDocumented pr) \<and> passed (validateProjectCharter pr))"
proof -
  obtain res where res: "evaluateGate pr D_DEFINE D_MEASURE = Inr res"
    by (simp add: evaluateGate_def gatesCriteria_def Let_def)
  then have "criteria_results res =
      [validateVOCComplete pr, validateCTQDefined pr, validateConstraintsDocumented pr,
       validateProjectCharter pr]"
    by (auto simp: evaluateGate_def gatesCriteria_def Let_def)
  with evaluateGate_all [OF res] res show ?thesis by simp
qed

lemma evaluateGate_measure:
  "map_sum id gate_passed (evaluateGate pr D_MEASURE D_ANALYZE) =
     Inr (passed (validateKPIsDefined pr))"
proof -
  obtain res where res: "evaluateGate pr D_MEASURE D_ANALYZE = Inr res"
    by (simp add: evaluateGate_def gatesCriteria_def Let_def)
  then have "criteria_results res =
      [validateKPIsDefined pr, createPlaceholderResult ''BASELINES_ESTABLISHED'' True,
       createPlaceholderResult ''MEASUREMENT_PLAN_COMPLETE'' True]"
    by (auto simp: evaluateGate_def gatesCriteria_def Let_def)
  with evaluateGate_all [OF res] res show ?thesis
    by (simp add: createPlaceholderResult_def)
qed

lemma evaluateGate_placeholders:
  "map_sum id gate_passed (evaluateGate pr D_ANALYZE D_IMPROVE) = Inr True"
  "map_sum id gate_passed (evaluateGate pr D_IMPROVE D_CONTROL) = Inr True"
  "map_sum id gate_passed (evaluateGate pr D_CONTROL D_COMPLETE) = Inr True"
  by (simp_all add: evaluateGate_def gatesCriteria_def Let_def createPlaceholderResult_def)

subsection \<open>Helper lemmas: adding risk items, the Define phase of the TypeScript server\<close>

lemma updateProjectRisk_only_risk:
  "updateProjectRisk items project = project\<lparr>risk_level := risk_level (updateProjectRisk items project)\<rparr>"
  by (simp add: updateProjectRisk_def)





subsection \<open>Claims\<close>

text \<open>
  C5, as amended. In the dashboard, the total score of a candidate solution is
  impact * 2 - effort - risk - cost (6 for impact 8, effort 4, risk 3, cost 3); the
  ranking is a stable sort by total score, descending, which returns the same solution
  records, so no status changes; the list of the Improve tab is in descending order
  after every sequence of events; and \<open>addSolution\<close> either changes nothing or stores
  one new row, whose status is \<open>proposed\<close> and whose total score is the computed one,
  next to the unchanged earlier rows. In the protocol server, \<open>evaluateSolutions\<close>
  scores a candidate by 0.4 * impact + 0.2 * effort + 0.2 * risk + 0.2 * cost over its
  normalised scores, ranks the candidates by that score, descending, and returns the
  candidates it was given, each with its score attached.
\<close>

theorem solution_total_score_and_ranking:
  "calculateTotalScore ns =
     ns_impact_score ns * 2 - ns_effort_score ns - ns_risk_score ns - ns_cost_score ns \<and>
   calculateTotalScore (newSolution_reset\<lparr>ns_impact_score := 8, ns_effort_score := 4,
      ns_risk_score := 3, ns_cost_score := 3\<rparr>) = 6 \<and>
   ranked_desc (sort_by_total_score_desc xs) \<and>
   mset (sort_by_total_score_desc xs) = mset xs \<and>
   ranked_desc (solutions (ImprovePhase_run evs)) \<and>
   (addSolution new_id projectId st = st \<or>
    (\<exists>row. insert_solution new_id projectId (newSolution st) (calculateTotalScore (newSolution st)) = Some row \<and>
           sol_status row = proposed \<and>
           total_score row = calculateTotalScore (newSolution st) \<and>
           mset (solutions (addSolution new_id projectId st)) = mset (solutions st) + {#row#})) \<and>
   totalScore c = impactScore c * 0.4 + effortScore c * 0.2 + riskScore c * 0.2 + costScore c * 0.2 \<and>
   list_all (\<lambda>s. score s = totalScore (js_solution.truncate s)) (all_solutions (js_evaluateSolutions sols)) \<and>
   sorted_wrt (\<lambda>a b. score b \<le> score a) (all_solutions (js_evaluateSolutions sols)) \<and>
   mset (map js_solution.truncate (all_solutions (js_evaluateSolutions sols))) = mset sols"
proof (intro conjI)
  show "calculateTotalScore ns =
     ns_impact_score ns * 2 - ns_effort_score ns - ns_risk_score ns - ns_cost_score ns"
    by (simp add: calculateTotalScore_def)
  show "calculateTotalScore (newSolution_reset\<lparr>ns_impact_score := 8, ns_effort_score := 4,
      ns_risk_score := 3, ns_cost_score := 3\<rparr>) = 6"
    by (simp add: calculateTotalScore_def newSolution_reset_def)
  show "ranked_desc (sort_by_total_score_desc xs)"
    by (rule ranked_desc_sort)
  show "mset (sort_by_total_score_desc xs) = mset xs"
    by (rule mset_sort_by_total_score_desc)
  show "ranked_desc (solutions (ImprovePhase_run evs))"
    by (rule ImprovePhase_run_ranked)
  show "addSolution new_id projectId st = st \<or>
    (\<exists>row. insert_solution new_id projectId (newSolution st) (calculateTotalScore (newSolution st)) = Some row \<and>
           sol_status row = proposed \<and>
           total_score row = calculateTotalScore (newSolution st) \<and>
           mset (solutions (addSolution new_id projectId st)) = mset (solutions st) + {#row#})"
    by (rule addSolution_cases)
  show "totalScore c = impactScore c * 0.4 + effortScore c * 0.2 + riskScore c * 0.2 + costScore c * 0.2"
    by (simp add: totalScore_def)
  show "list_all (\<lambda>s. score s = totalScore (js_solution.truncate s)) (all_solutions (js_evaluateSolutions sols))"
    by (rule js_evaluateSolutions_scores)
  show "sorted_wrt (\<lambda>a b. score b \<le> score a) (all_solutions (js_evaluateSolutions sols))"
    by (rule js_evaluateSolutions_ranked)
  show "mset (map js_solution.truncate (all_solutions (js_evaluateSolutions sols))) = mset sols"
    by (rule js_evaluateSolutions_same_solutions)
qed

text \<open>
  The amended statement at concrete inputs: two solutions added through the form end
  up ranked 14 before 6, the approval of the lower one does not reorder or rescore,
  and the server ranks the candidates of the redesign approach by weighted score.
\<close>

theorem solution_total_score_and_ranking_witness:
  "map (\<lambda>s. (sol_id s, total_score s, sol_status s))
     (solutions (ImprovePhase_run
        [EvEdit (newSolution_reset\<lparr>ns_title := ''cache'', ns_impact_score := 8,
                   ns_effort_score := 4, ns_risk_score := 3, ns_cost_score := 3\<rparr>),
         EvAdd ''s1'' ''p'',
         EvEdit (newSolution_reset\<lparr>ns_title := ''rewrite'', ns_impact_score := 9,
                   ns_effort_score := 2, ns_risk_score := 1, ns_cost_score := 1\<rparr>),
         EvAdd ''s2'' ''p'',
         EvUpdateStatus ''s1'' approved]))
   = [(''s2'', 14, proposed), (''s1'', 6, approved)] \<and>
   ranked_desc (solutions (ImprovePhase_run
        [EvEdit (newSolution_reset\<lparr>ns_title := ''cache'', ns_impact_score := 8,
                   ns_effort_score := 4, ns_risk_score := 3, ns_cost_score := 3\<rparr>),
         EvAdd ''s1'' ''p'',
         EvEdit (newSolution_reset\<lparr>ns_title := ''rewrite'', ns_impact_score := 9,
                   ns_effort_score := 2, ns_risk_score := 1, ns_cost_score := 1\<rparr>),
         EvAdd ''s2'' ''p'',
         EvUpdateStatus ''s1'' approved])) \<and>
   map (\<lambda>s. (js_name s, score s)) (all_solutions (js_evaluateSolutions (js_generateSolutions ''redesign'')))
   = [(''Monitoring Enhancement'', 33 / 50), (''Performance Optimization Suite'', 63 / 100),
      (''Architecture Redesign'', 53 / 100)]"
  using solution_total_score_and_ranking
    [of newSolution_reset "[]"
        "[EvEdit (newSolution_reset\<lparr>ns_title := ''cache'', ns_impact_score := 8,
                   ns_effort_score := 4, ns_risk_score := 3, ns_cost_score := 3\<rparr>),
          EvAdd ''s1'' ''p'',
          EvEdit (newSolution_reset\<lparr>ns_title := ''rewrite'', ns_impact_score := 9,
                   ns_effort_score := 2, ns_risk_score := 1, ns_cost_score := 1\<rparr>),
          EvAdd ''s2'' ''p'',
          EvUpdateStatus ''s1'' approved]"]
  by (simp add: ImprovePhase_run_def ImprovePhase_initial_def addSolution_def
        insert_solution_def score_in_range_def calculateTotalScore_def newSolution_reset_def
        sort_by_total_score_desc_def updateStatus_def Let_def
        js_evaluateSolutions_def js_generateSolutions_def scoreSolution_def totalScore_def
        impactScore_def effortScore_def riskScore_def costScore_def js_solution.extend_def)

text \<open>
  C5 as stated fails on the protocol server: its candidate ``Monitoring Enhancement''
  has the scores impact 0.2, effort 1, risk 1 and cost 0.9, all between 0 and 10, and
  the total score 0.66, where impact * 2 - effort - risk - cost is -2.5.
\<close>

theorem solution_total_score_counterexample:
  "impactScore (last (js_generateSolutions ''redesign'')) = 1 / 5 \<and>
   effortScore (last (js_generateSolutions ''redesign'')) = 1 \<and>
   riskScore (last (js_generateSolutions ''redesign'')) = 1 \<and>
   costScore (last (js_generateSolutions ''redesign'')) = 9 / 10 \<and>
   totalScore (last (js_generateSolutions ''redesign'')) = 33 / 50 \<and>
   totalScore (last (js_generateSolutions ''redesign'')) \<noteq>
     impactScore (last (js_generateSolutions ''redesign'')) * 2
       - effortScore (last (js_generateSolutions ''redesign''))
       - riskScore (last (js_generateSolutions ''redesign''))
       - costScore (last (js_generateSolutions ''redesign''))"
  by (simp add: js_generateSolutions_def totalScore_def impactScore_def effortScore_def
        riskScore_def costScore_def)

text \<open>
  C10, as amended. \<open>calculatePerformance\<close> returns the number 0 for a KPI whose target
  is 0. For every other KPI it returns a string: current value / target * 100 rounded
  to one decimal place (sign, integer digits, a point, one digit), whose value differs
  from the quotient's magnitude by at most 0.05.
\<close>

theorem calculatePerformance_total:
  "calculatePerformance (kpi\<lparr>kpi_target := 0\<rparr>) = JNumber 0 \<and>
   (kpi_target kpi \<noteq> 0 \<longrightarrow>
      (\<exists>n. calculatePerformance kpi =
             JString ((if kpi_current_value kpi / kpi_target kpi * 100 < 0 then ''-'' else '''')
                      @ show_nat (n div 10) @ ''.'' @ show_nat (n mod 10)) \<and>
           \<bar>real n / 10 - \<bar>kpi_current_value kpi / kpi_target kpi * 100\<bar>\<bar> \<le> 1 / 20))"
proof (intro conjI impI)
  show "calculatePerformance (kpi\<lparr>kpi_target := 0\<rparr>) = JNumber 0"
    by (simp add: calculatePerformance_def)
next
  assume nz: "kpi_target kpi \<noteq> 0"
  let ?x = "kpi_current_value kpi / kpi_target kpi * 100"
  have "calculatePerformance kpi =
          JString ((if ?x < 0 then ''-'' else '''')
                   @ show_nat (toFixed1_tenths ?x div 10) @ ''.'' @ show_nat (toFixed1_tenths ?x mod 10))"
    using nz by (simp add: calculatePerformance_def toFixed1_def Let_def)
  moreover have "\<bar>real (toFixed1_tenths ?x) / 10 - \<bar>?x\<bar>\<bar> \<le> 1 / 20"
    by (rule toFixed1_tenths_near)
  ultimately show "\<exists>n. calculatePerformance kpi =
             JString ((if ?x < 0 then ''-'' else '''')
                      @ show_nat (n div 10) @ ''.'' @ show_nat (n mod 10)) \<and>
           \<bar>real n / 10 - \<bar>?x\<bar>\<bar> \<le> 1 / 20"
    by blast
qed

theorem calculatePerformance_total_witness:
  "kpi_target \<lparr>kpi_id = ''k1'', kpi_project_id = ''p'', kpi_name = ''latency'',
      kpi_description = '''', kpi_target = 3, kpi_current_value = 1, kpi_unit = ''ms''\<rparr> \<noteq> 0 \<and>
   (\<exists>n. calculatePerformance \<lparr>kpi_id = ''k1'', kpi_project_id = ''p'', kpi_name = ''latency'',
      kpi_description = '''', kpi_target = 3, kpi_current_value = 1, kpi_unit = ''ms''\<rparr> =
         JString (show_nat (n div 10) @ ''.'' @ show_nat (n mod 10)) \<and>
         \<bar>real n / 10 - 100 / 3\<bar> \<le> 1 / 20)"
  using calculatePerformance_total
    [of "\<lparr>kpi_id = ''k1'', kpi_project_id = ''p'', kpi_name = ''latency'',
      kpi_description = '''', kpi_target = 3, kpi_current_value = 1, kpi_unit = ''ms''\<rparr>"]
  by simp

text \<open>
  C10 as stated fails for a KPI with target 3 and current value 1: the result is the
  string \<open>33.3\<close>, not the number 100 / 3.
\<close>

theorem calculatePerformance_counterexample:
  "calculatePerformance \<lparr>kpi_id = ''k1'', kpi_project_id = ''p'', kpi_name = ''latency'',
      kpi_description = '''', kpi_target = 3, kpi_current_value = 1, kpi_unit = ''ms''\<rparr>
     = JString ''33.3'' \<and>
   calculatePerformance \<lparr>kpi_id = ''k1'', kpi_project_id = ''p'', kpi_name = ''latency'',
      kpi_description = '''', kpi_target = 3, kpi_current_value = 1, kpi_unit = ''ms''\<rparr>
     \<noteq> JNumber (1 / 3 * 100) \<and>
   (333 / 10 :: real) \<noteq> 1 / 3 * 100"
  by (simp add: calculatePerformance_def toFixed1_def toFixed1_tenths_def show_nat.simps
        digit_char_def Let_def)

text \<open>
  C4. Every row that inserts and updates can leave in table \<open>fmea_items\<close> has severity,
  occurrence and detection between 1 and 10 and a risk priority number equal to their
  product, between 1 and 1000. After an update the number is the product of the row's
  new values. A statement that names a value for the number itself is rejected, on
  insert and on update. The fixed failure modes of the protocol server carry the
  product as well.
\<close>

theorem fmea_rpn_derived:
  "(stored_fmea_item row \<longrightarrow>
      in_1_to_10 (severity row) \<and> in_1_to_10 (occurrence row) \<and> in_1_to_10 (detection row) \<and>
      rpn row = severity row * occurrence row * detection row \<and>
      1 \<le> rpn row \<and> rpn row \<le> 1000) \<and>
   (update_fmea_item old u = Inr new \<longrightarrow>
      severity new = (case upd_severity u of None \<Rightarrow> severity old | Some v \<Rightarrow> v) \<and>
      occurrence new = (case upd_occurrence u of None \<Rightarrow> occurrence old | Some v \<Rightarrow> v) \<and>
      detection new = (case upd_detection u of None \<Rightarrow> detection old | Some v \<Rightarrow> v) \<and>
      rpn new = severity new * occurrence new * detection new) \<and>
   insert_fmea_item new_id projectId (v\<lparr>ins_rpn := Some x\<rparr>) = Inl (generated_always ''rpn'') \<and>
   update_fmea_item old' (u'\<lparr>upd_rpn := Some x\<rparr>) = Inl (generated_always ''rpn'') \<and>
   list_all (\<lambda>fm. fm_rpn fm = fm_severity fm * fm_occurrence fm * fm_detection fm \<and>
                   1 \<le> fm_rpn fm \<and> fm_rpn fm \<le> 1000)
     (js_failureModes depth)"
proof (intro conjI impI)
  assume st: "stored_fmea_item row"
  then have ok: "fmea_row_ok row" by (rule stored_fmea_item_ok)
  then show "in_1_to_10 (severity row)" "in_1_to_10 (occurrence row)" "in_1_to_10 (detection row)"
    and eq: "rpn row = severity row * occurrence row * detection row"
    by (simp_all add: fmea_row_ok_def)
  from ok have "1 \<le> severity row * occurrence row * detection row \<and>
                severity row * occurrence row * detection row \<le> 1000"
    by (intro rpn_product_range) (simp_all add: fmea_row_ok_def)
  with eq show "1 \<le> rpn row" "rpn row \<le> 1000" by simp_all
next
  assume up: "update_fmea_item old u = Inr new"
  from update_fmea_item_fields [OF up]
  show "severity new = (case upd_severity u of None \<Rightarrow> severity old | Some v \<Rightarrow> v)"
    and "occurrence new = (case upd_occurrence u of None \<Rightarrow> occurrence old | Some v \<Rightarrow> v)"
    and "detection new = (case upd_detection u of None \<Rightarrow> detection old | Some v \<Rightarrow> v)"
    by simp_all
  from update_fmea_item_ok [OF up]
  show "rpn new = severity new * occurrence new * detection new"
    by (simp add: fmea_row_ok_def)
next
  show "insert_fmea_item new_id projectId (v\<lparr>ins_rpn := Some x\<rparr>) = Inl (generated_always ''rpn'')"
    by (simp add: insert_fmea_item_def)
  show "update_fmea_item old' (u'\<lparr>upd_rpn := Some x\<rparr>) = Inl (generated_always ''rpn'')"
    by (simp add: update_fmea_item_def)
  show "list_all (\<lambda>fm. fm_rpn fm = fm_severity fm * fm_occurrence fm * fm_detection fm \<and>
                   1 \<le> fm_rpn fm \<and> fm_rpn fm \<le> 1000)
     (js_failureModes depth)"
    by (rule js_failureModes_rpn)
qed

text \<open>
  A row inserted with severity 9, occurrence 6 and detection 7 is stored with the
  number 378; lowering its severity to 2 stores 84.
\<close>

theorem fmea_rpn_derived_witness:
  "stored_fmea_item
     \<lparr>fmea_id = ''f1'', fmea_project_id = ''p'', failure_mode = ''Database connection timeout'',
      effects = ''Service unavailable'', causes = ''Network issues'',
      severity = 9, occurrence = 6, detection = 7, rpn = 378\<rparr> \<and>
   (1::int) \<le> 378 \<and> (378::int) \<le> 1000 \<and>
   update_fmea_item
     \<lparr>fmea_id = ''f1'', fmea_project_id = ''p'', failure_mode = ''Database connection timeout'',
      effects = ''Service unavailable'', causes = ''Network issues'',
      severity = 9, occurrence = 6, detection = 7, rpn = 378\<rparr>
     \<lparr>upd_severity = Some 2, upd_occurrence = None, upd_detection = None, upd_rpn = None\<rparr>
   = Inr \<lparr>fmea_id = ''f1'', fmea_project_id = ''p'', failure_mode = ''Database connection timeout'',
      effects = ''Service unavailable'', causes = ''Network issues'',
      severity = 2, occurrence = 6, detection = 7, rpn = 84\<rparr> \<and>
   (84::int) = 2 * 6 * 7"
proof -
  let ?row = "\<lparr>fmea_id = ''f1'', fmea_project_id = ''p'',
      failure_mode = ''Database connection timeout'',
      effects = ''Service unavailable'', causes = ''Network issues'',
      severity = 9, occurrence = 6, detection = 7, rpn = 378\<rparr>"
  let ?u = "\<lparr>upd_severity = Some 2, upd_occurrence = None, upd_detection = None, upd_rpn = None\<rparr>"
  let ?new = "\<lparr>fmea_id = ''f1'', fmea_project_id = ''p'',
      failure_mode = ''Database connection timeout'',
      effects = ''Service unavailable'', causes = ''Network issues'',
      severity = 2, occurrence = 6, detection = 7, rpn = 84\<rparr>"
  have "insert_fmea_item ''f1'' ''p''
          \<lparr>ins_failure_mode = ''Database connection timeout'', ins_effects = ''Service unavailable'',
           ins_causes = ''Network issues'', ins_severity = 9, ins_occurrence = 6,
           ins_detection = 7, ins_rpn = None\<rparr> = Inr ?row"
    by (simp add: insert_fmea_item_def fmea_checks_def generate_rpn_def in_1_to_10_def)
  then have st: "stored_fmea_item ?row"
    by (rule stored_fmea_item.inserted)
  have up: "update_fmea_item ?row ?u = Inr ?new"
    by (simp add: update_fmea_item_def fmea_checks_def generate_rpn_def in_1_to_10_def)
  from st up fmea_rpn_derived [of ?row ?row ?u ?new]
  show ?thesis by simp
qed

text \<open>
  C3, as amended. In the dashboard the level that \<open>updateProjectRisk\<close> writes is
  computed from the list of risk items it reads: HIGH exactly when the average risk
  priority number is above 300, MEDIUM exactly when it is above 150 and at most 300,
  LOW otherwise, and LOW for the empty list. In the protocol server
  \<open>calculateRiskLevel\<close> classifies the rounded average of the FMEA summary: HIGH above
  100, MEDIUM above 50 and at most 100, LOW otherwise, and UNKNOWN without an FMEA.
\<close>

theorem risk_level_thresholds:
  "(riskLevel items = HIGH \<longleftrightarrow> avgRpn items > 300) \<and>
   (riskLevel items = MEDIUM \<longleftrightarrow> 150 < avgRpn items \<and> avgRpn items \<le> 300) \<and>
   (riskLevel items = LOW \<longleftrightarrow> avgRpn items \<le> 150) \<and>
   (items \<noteq> [] \<longrightarrow>
      avgRpn items = real_of_int (sum_list (map rpn items)) / real (length items)) \<and>
   riskLevel [] = LOW \<and>
   risk_level (updateProjectRisk items project) = riskLevel items \<and>
   calculateRiskLevel None = RISK_UNKNOWN \<and>
   (calculateRiskLevel (Some f) = RISK_HIGH \<longleftrightarrow> average_rpn f > 100) \<and>
   (calculateRiskLevel (Some f) = RISK_MEDIUM \<longleftrightarrow> 50 < average_rpn f \<and> average_rpn f \<le> 100) \<and>
   (calculateRiskLevel (Some f) = RISK_LOW \<longleftrightarrow> average_rpn f \<le> 50) \<and>
   average_rpn (conductFMEA depth) =
     Math_round (real_of_int (sum_list (map fm_rpn (js_failureModes depth)))
                 / real (length (js_failureModes depth)))"
proof (intro conjI impI)
  show "riskLevel items = HIGH \<longleftrightarrow> avgRpn items > 300"
    by (simp add: riskLevel_def)
  show "riskLevel items = MEDIUM \<longleftrightarrow> 150 < avgRpn items \<and> avgRpn items \<le> 300"
    by (auto simp: riskLevel_def)
  show "riskLevel items = LOW \<longleftrightarrow> avgRpn items \<le> 150"
    by (auto simp: riskLevel_def)
  show "riskLevel [] = LOW"
    by (simp add: riskLevel_def avgRpn_def)
  show "risk_level (updateProjectRisk items project) = riskLevel items"
    by (simp add: updateProjectRisk_def)
  show "calculateRiskLevel None = RISK_UNKNOWN"
    by (simp add: calculateRiskLevel_def)
  show "calculateRiskLevel (Some f) = RISK_HIGH \<longleftrightarrow> average_rpn f > 100"
    by (simp add: calculateRiskLevel_def Let_def)
  show "calculateRiskLevel (Some f) = RISK_MEDIUM \<longleftrightarrow> 50 < average_rpn f \<and> average_rpn f \<le> 100"
    by (auto simp: calculateRiskLevel_def Let_def)
  show "calculateRiskLevel (Some f) = RISK_LOW \<longleftrightarrow> average_rpn f \<le> 50"
    by (auto simp: calculateRiskLevel_def Let_def)
  show "average_rpn (conductFMEA depth) =
     Math_round (real_of_int (sum_list (map fm_rpn (js_failureModes depth)))
                 / real (length (js_failureModes depth)))"
    by (simp add: conductFMEA_def Let_def foldl_fm_rpn_sum)
next
  assume "items \<noteq> []"
  then show "avgRpn items = real_of_int (sum_list (map rpn items)) / real (length items)"
    by (rule avgRpn_average)
qed

text \<open>
  A single risk item with severity 9, occurrence 6 and detection 7 has the average 378
  and the level HIGH.
\<close>

theorem risk_level_thresholds_witness:
  "[\<lparr>fmea_id = ''f1'', fmea_project_id = ''p'', failure_mode = ''Database connection timeout'',
      effects = ''Service unavailable'', causes = ''Network issues'',
      severity = 9, occurrence = 6, detection = 7, rpn = 378\<rparr>] \<noteq> [] \<and>
   avgRpn [\<lparr>fmea_id = ''f1'', fmea_project_id = ''p'', failure_mode = ''Database connection timeout'',
      effects = ''Service unavailable'', causes = ''Network issues'',
      severity = 9, occurrence = 6, detection = 7, rpn = 378\<rparr>] = 378 \<and>
   riskLevel [\<lparr>fmea_id = ''f1'', fmea_project_id = ''p'', failure_mode = ''Database connection timeout'',
      effects = ''Service unavailable'', causes = ''Network issues'',
      severity = 9, occurrence = 6, detection = 7, rpn = 378\<rparr>] = HIGH"
  using risk_level_thresholds
    [of "[\<lparr>fmea_id = ''f1'', fmea_project_id = ''p'', failure_mode = ''Database connection timeout'',
      effects = ''Service unavailable'', causes = ''Network issues'',
      severity = 9, occurrence = 6, detection = 7, rpn = 378\<rparr>]"]
  by simp

text \<open>
  C3 as stated fails on the protocol server: the four failure modes of the standard
  analysis have the risk priority numbers 54, 105, 112 and 24, on average 73.75, which
  is not above 150, and the project's risk level is MEDIUM.
\<close>

theorem risk_level_counterexample:
  "map fm_rpn (failure_modes (conductFMEA ''standard'')) = [54, 105, 112, 24] \<and>
   real_of_int (sum_list (map fm_rpn (failure_modes (conductFMEA ''standard''))))
     / real (length (failure_modes (conductFMEA ''standard''))) = 295 / 4 \<and>
   \<not> (295 / 4 > (150::real)) \<and>
   average_rpn (conductFMEA ''standard'') = 74 \<and>
   calculateRiskLevel (Some (conductFMEA ''standard'')) = RISK_MEDIUM"
  by (simp add: conductFMEA_def js_failureModes_def calculateRiskLevel_def Math_round_def Let_def)

text \<open>
  C7, as amended. For measure data with at least one KPI, the defect rate is the
  number of KPIs whose baseline is below 0.9 times the target, divided by the number
  of KPIs; DPMO is the defect rate times 1,000,000; the sigma level is 6 up to 233
  DPMO, 5 up to 6210, 4 up to 66800, 3 up to 308000, 2 up to 690000 and 1 above;
  Cp is the larger of 0.5 and 1.33 - 2 * defect rate; Cpk is the larger of 0.4 and
  0.9 * (1.33 - 2 * defect rate), which is 0.9 * Cp whenever 1.33 - 2 * defect rate
  is at least 0.5.
\<close>

theorem process_capability:
  "ts_kpis md \<noteq> [] \<longrightarrow>
     defectRate md =
       real (length (filter (\<lambda>k. baseline_of md k < ts_target k * 0.9) (ts_kpis md)))
         / real (length (ts_kpis md)) \<and>
     defects_per_million (analyzeProcessCapability md) = Some (defectRate md * 1000000) \<and>
     sigma_level (analyzeProcessCapability md) =
       (if defectRate md * 1000000 \<le> 233 then 6
        else if defectRate md * 1000000 \<le> 6210 then 5
        else if defectRate md * 1000000 \<le> 66800 then 4
        else if defectRate md * 1000000 \<le> 308000 then 3
        else if defectRate md * 1000000 \<le> 690000 then 2 else 1) \<and>
     cp (analyzeProcessCapability md) = Some (max 0.5 (1.33 - 2 * defectRate md)) \<and>
     cpk (analyzeProcessCapability md) = Some (max 0.4 (0.9 * (1.33 - 2 * defectRate md))) \<and>
     (1.33 - 2 * defectRate md \<ge> 0.5 \<longrightarrow>
        cpk (analyzeProcessCapability md) = Some (0.9 * max 0.5 (1.33 - 2 * defectRate md)))"
proof (intro impI conjI)
  assume ne: "ts_kpis md \<noteq> []"
  show "defectRate md =
       real (length (filter (\<lambda>k. baseline_of md k < ts_target k * 0.9) (ts_kpis md)))
         / real (length (ts_kpis md))"
    by (rule defectRate_count)
  from ne show "defects_per_million (analyzeProcessCapability md) = Some (defectRate md * 1000000)"
    by (simp add: analyzeProcessCapability_def Let_def)
  from ne show "sigma_level (analyzeProcessCapability md) =
       (if defectRate md * 1000000 \<le> 233 then 6
        else if defectRate md * 1000000 \<le> 6210 then 5
        else if defectRate md * 1000000 \<le> 66800 then 4
        else if defectRate md * 1000000 \<le> 308000 then 3
        else if defectRate md * 1000000 \<le> 690000 then 2 else 1)"
    by (simp only: analyzeProcessCapability_def Let_def if_False
          ProcessCapability.simps sigmaLevel_steps)
  from ne show "cp (analyzeProcessCapability md) = Some (max 0.5 (1.33 - 2 * defectRate md))"
    by (simp add: analyzeProcessCapability_def Let_def mult.commute)
  from ne show cpk: "cpk (analyzeProcessCapability md) = Some (max 0.4 (0.9 * (1.33 - 2 * defectRate md)))"
    by (simp add: analyzeProcessCapability_def Let_def mult.commute)
  assume "1.33 - 2 * defectRate md \<ge> 0.5"
  then have "max 0.4 (0.9 * (1.33 - 2 * defectRate md)) = 0.9 * max 0.5 (1.33 - 2 * defectRate md)"
    by (simp add: max_def)
  with cpk show "cpk (analyzeProcessCapability md) = Some (0.9 * max 0.5 (1.33 - 2 * defectRate md))"
    by simp
qed

text \<open>
  With a single KPI of target 100 and baseline 95 the defect rate is 0, DPMO is 0, the
  sigma level is 6, Cp is 1.33 and Cpk is 1.197, which is 0.9 * 1.33.
\<close>

theorem process_capability_witness:
  "ts_kpis \<lparr>ts_kpis =
       [\<lparr>ts_name = ''uptime'', ts_description = '''', ts_unit = ''%'', ts_target = 100,
         ts_current_value = None, ts_measurement_frequency = ''daily''\<rparr>],
      ts_baselines = [''uptime'' \<mapsto> 95]\<rparr> \<noteq> [] \<and>
   defectRate \<lparr>ts_kpis =
       [\<lparr>ts_name = ''uptime'', ts_description = '''', ts_unit = ''%'', ts_target = 100,
         ts_current_value = None, ts_measurement_frequency = ''daily''\<rparr>],
      ts_baselines = [''uptime'' \<mapsto> 95]\<rparr> = 0 \<and>
   analyzeProcessCapability \<lparr>ts_kpis =
       [\<lparr>ts_name = ''uptime'', ts_description = '''', ts_unit = ''%'', ts_target = 100,
         ts_current_value = None, ts_measurement_frequency = ''daily''\<rparr>],
      ts_baselines = [''uptime'' \<mapsto> 95]\<rparr>
     = \<lparr>cp = Some 1.33, cpk = Some 1.197, sigma_level = 6, defects_per_million = Some 0\<rparr>"
  using process_capability
    [of "\<lparr>ts_kpis =
       [\<lparr>ts_name = ''uptime'', ts_description = '''', ts_unit = ''%'', ts_target = 100,
         ts_current_value = None, ts_measurement_frequency = ''daily''\<rparr>],
      ts_baselines = [''uptime'' \<mapsto> 95]\<rparr>"]
  by (simp add: baseline_of_def)

text \<open>
  C7 as stated fails for a single KPI with target 100 and baseline 50: the defect rate
  is 1, Cp is 0.5, and Cpk is 0.4, not 0.9 * 0.5.
\<close>

theorem process_capability_counterexample:
  "defectRate \<lparr>ts_kpis =
       [\<lparr>ts_name = ''uptime'', ts_description = '''', ts_unit = ''%'', ts_target = 100,
         ts_current_value = None, ts_measurement_frequency = ''daily''\<rparr>],
      ts_baselines = [''uptime'' \<mapsto> 50]\<rparr> = 1 \<and>
   cp (analyzeProcessCapability \<lparr>ts_kpis =
       [\<lparr>ts_name = ''uptime'', ts_description = '''', ts_unit = ''%'', ts_target = 100,
         ts_current_value = None, ts_measurement_frequency = ''daily''\<rparr>],
      ts_baselines = [''uptime'' \<mapsto> 50]\<rparr>) = Some 0.5 \<and>
   cpk (analyzeProcessCapability \<lparr>ts_kpis =
       [\<lparr>ts_name = ''uptime'', ts_description = '''', ts_unit = ''%'', ts_target = 100,
         ts_current_value = None, ts_measurement_frequency = ''daily''\<rparr>],
      ts_baselines = [''uptime'' \<mapsto> 50]\<rparr>) = Some 0.4 \<and>
   (0.4 :: real) \<noteq> 0.9 * 0.5"
  by (simp add: analyzeProcessCapability_def defectRate_def baseline_of_def Let_def)

text \<open>
  C1, as amended. In the dashboard \<open>advancePhase\<close> evaluates no gate itself. For a
  project in DEFINE, MEASURE, ANALYZE or IMPROVE it makes the immediate successor the
  current phase and sets the phase completion to (index of the new phase + 1) / 5 * 100;
  the completion button that calls it is enabled exactly when the condition of the
  current phase's component holds, and with the button disabled nothing changes. For a
  project in CONTROL \<open>advancePhase\<close> changes nothing: the button of the Control tab,
  enabled when all four boxes are ticked, calls \<open>markProjectComplete\<close>, which sets the
  phase COMPLETED, the completion 100 and the quality score 95. In the protocol server
  \<open>measure_phase\<close> evaluates no gate: it takes a project in DEFINE or MEASURE that has
  its Define artifacts to ANALYZE, with completion 40.
\<close>

theorem phase_advance:
  "(current_phase p \<noteq> CONTROL \<and> current_phase p \<noteq> COMPLETED \<longrightarrow>
      advancePhase p =
        p\<lparr>current_phase := successor (current_phase p),
          phase_completion := (real (phase_index (successor (current_phase p))) + 1) / 5 * 100\<rparr> \<and>
      click_complete p s = (if button_enabled (current_phase p) s then advancePhase p else p)) \<and>
   (current_phase q = CONTROL \<longrightarrow>
      advancePhase q = q \<and>
      click_complete q s' =
        (if allItemsComplete (snap_controlItems s')
         then q\<lparr>current_phase := COMPLETED, phase_completion := 100, quality_score := 95\<rparr>
         else q)) \<and>
   ((js_current_phase r = DEFINE \<or> js_current_phase r = MEASURE) \<and>
    art_define (js_artifacts r) \<noteq> None \<longrightarrow>
      (\<exists>r'. js_measurePhase (Some r) now = Inr r' \<and> js_current_phase r' = ANALYZE \<and>
            m_phase_completion (js_metrics r') = 40))"
proof (intro conjI impI)
  assume "current_phase p \<noteq> CONTROL \<and> current_phase p \<noteq> COMPLETED"
  then have a: "current_phase p \<noteq> CONTROL" and b: "current_phase p \<noteq> COMPLETED"
    by simp_all
  from a b show "advancePhase p =
        p\<lparr>current_phase := successor (current_phase p),
          phase_completion := (real (phase_index (successor (current_phase p))) + 1) / 5 * 100\<rparr>"
    by (rule advancePhase_successor)
  from a b show "click_complete p s = (if button_enabled (current_phase p) s then advancePhase p else p)"
    by (rule click_complete_first_four)
next
  assume c: "current_phase q = CONTROL"
  then show "advancePhase q = q"
    by (rule advancePhase_values)
  from c show "click_complete q s' =
        (if allItemsComplete (snap_controlItems s')
         then q\<lparr>current_phase := COMPLETED, phase_completion := 100, quality_score := 95\<rparr>
         else q)"
    by (rule click_complete_control)
next
  assume "(js_current_phase r = DEFINE \<or> js_current_phase r = MEASURE) \<and>
          art_define (js_artifacts r) \<noteq> None"
  then show "\<exists>r'. js_measurePhase (Some r) now = Inr r' \<and> js_current_phase r' = ANALYZE \<and>
            m_phase_completion (js_metrics r') = 40"
    using js_measurePhase_moves [of r now] by blast
qed

text \<open>
  A project in DEFINE with one requirement, one quality-target item and one constraint
  moves to MEASURE with completion 40; a project in CONTROL with all boxes ticked is
  completed with completion 100; the server's project, still in DEFINE after
  \<open>define_phase\<close>, is taken to ANALYZE by \<open>measure_phase\<close>.
\<close>

theorem phase_advance_witness:
  "current_phase (example_project DEFINE 0) \<noteq> CONTROL \<and>
   current_phase (example_project DEFINE 0) \<noteq> COMPLETED \<and>
   click_complete (example_project DEFINE 0) define_ready_snapshot =
     (example_project DEFINE 0)\<lparr>current_phase := MEASURE, phase_completion := 40\<rparr> \<and>
   current_phase (example_project CONTROL 100) = CONTROL \<and>
   click_complete (example_project CONTROL 100) control_ready_snapshot =
     (example_project CONTROL 100)\<lparr>current_phase := COMPLETED, phase_completion := 100,
        quality_score := 95\<rparr> \<and>
   js_current_phase js_defined = DEFINE \<and>
   art_define (js_artifacts js_defined) \<noteq> None \<and>
   (\<exists>r'. js_measurePhase (Some js_defined) ''t2'' = Inr r' \<and> js_current_phase r' = ANALYZE \<and>
         m_phase_completion (js_metrics r') = 40)"
proof -
  have d: "current_phase (example_project DEFINE 0) = DEFINE"
    and c: "current_phase (example_project CONTROL 100) = CONTROL"
    by (simp_all add: example_project_def)
  have b: "button_enabled DEFINE define_ready_snapshot"
    by (simp add: button_enabled_def define_ready_snapshot_def empty_snapshot_def
          DefinePhase_canComplete_def)
  have a: "allItemsComplete (snap_controlItems control_ready_snapshot)"
    by (simp add: control_ready_snapshot_def empty_snapshot_def allItemsComplete_def)
  have j: "js_current_phase js_defined = DEFINE" "art_define (js_artifacts js_defined) \<noteq> None"
    by (simp_all add: js_defined_def js_created_def js_createProject_def js_definePhase_def
          result_or_def with_quality_score_def)
  from d c b a j
    phase_advance [of "example_project DEFINE 0" define_ready_snapshot
                      "example_project CONTROL 100" control_ready_snapshot js_defined "''t2''"]
  show ?thesis by simp
qed

text \<open>
  C1 as stated fails in three places. In CONTROL with all four boxes ticked the gate
  holds, yet \<open>advancePhase\<close> leaves the project in CONTROL, and the completion that the
  Control tab writes is 100, not (5 + 1) / 5 * 100 = 120. On a project in DEFINE
  without any artifact the gate fails, yet \<open>advancePhase\<close>, called directly, moves it to
  MEASURE. In the protocol server \<open>measure_phase\<close> takes the project from DEFINE to
  ANALYZE, past MEASURE.
\<close>

theorem phase_advance_counterexample:
  "button_enabled CONTROL control_ready_snapshot \<and>
   advancePhase (example_project CONTROL 100) = example_project CONTROL 100 \<and>
   phase_completion (click_complete (example_project CONTROL 100) control_ready_snapshot) = 100 \<and>
   (real (phase_index (successor CONTROL)) + 1) / 5 * 100 = 120 \<and>
   \<not> button_enabled DEFINE empty_snapshot \<and>
   current_phase (advancePhase (example_project DEFINE 0)) = MEASURE \<and>
   js_current_phase js_defined = DEFINE \<and>
   successor DEFINE = MEASURE \<and>
   map_sum id js_current_phase (js_measurePhase (Some js_defined) ''t2'') = Inr ANALYZE"
  by (simp add: button_enabled_def control_ready_snapshot_def empty_snapshot_def
        allItemsComplete_def DefinePhase_canComplete_def example_project_def
        advancePhase_def phases_def click_complete_def markProjectComplete_def Let_def
        js_defined_def js_created_def js_createProject_def js_definePhase_def
        js_measurePhase_def result_or_def with_quality_score_def)

text \<open>
  C6, as amended. The quality score of the protocol server is
  \<open>Math.round\<close> of 0.4 * phase completion + 30 * (gate criteria recorded as met / 16)
  + risk points, where 16 is the number of gate criteria of all five phases and the
  risk points are 30 for LOW, 20 for MEDIUM and 10 otherwise (HIGH and UNKNOWN); the
  risk points are not scaled by 0.3 and nothing is clamped: for a completion between 0
  and 100 and at most 16 criteria met the score lies between 10 and 100. The score is
  recomputed by \<open>define_phase\<close>, \<open>measure_phase\<close>, \<open>improve_phase\<close> and
  \<open>control_phase\<close>. In the dashboard \<open>advancePhase\<close> leaves the quality score as it
  is and \<open>markProjectComplete\<close> sets it to 95.
\<close>

theorem quality_score_formula:
  "calculateQualityScore project =
     Math_round (0.4 * real_of_int (m_phase_completion (js_metrics project))
                 + 30 * (real (metGates project) / 16)
                 + risk_points (m_risk_level (js_metrics project))) \<and>
   totalGates = 16 \<and>
   risk_points RISK_LOW = 30 \<and> risk_points RISK_MEDIUM = 20 \<and>
   risk_points RISK_HIGH = 10 \<and> risk_points RISK_UNKNOWN = 10 \<and>
   (0 \<le> m_phase_completion (js_metrics project) \<and>
    m_phase_completion (js_metrics project) \<le> 100 \<and> metGates project \<le> 16 \<longrightarrow>
      10 \<le> calculateQualityScore project \<and> calculateQualityScore project \<le> 100) \<and>
   (js_definePhase found1 now1 = Inr r1 \<longrightarrow>
      m_quality_score (js_metrics r1) = calculateQualityScore r1) \<and>
   (js_measurePhase found2 now2 = Inr r2 \<longrightarrow>
      m_quality_score (js_metrics r2) = calculateQualityScore r2) \<and>
   (js_improvePhase found3 approach now3 = Inr r3 \<longrightarrow>
      m_quality_score (js_metrics r3) = calculateQualityScore r3) \<and>
   (js_controlPhase found4 now4 = Inr r4 \<longrightarrow>
      m_quality_score (js_metrics r4) = calculateQualityScore r4) \<and>
   quality_score (advancePhase p) = quality_score p \<and>
   quality_score (markProjectComplete p) = 95"
proof (intro conjI impI)
  show "calculateQualityScore project =
     Math_round (0.4 * real_of_int (m_phase_completion (js_metrics project))
                 + 30 * (real (metGates project) / 16)
                 + risk_points (m_risk_level (js_metrics project)))"
    by (rule calculateQualityScore_formula)
  show "totalGates = 16" by (rule totalGates_16)
  show "risk_points RISK_LOW = 30" "risk_points RISK_MEDIUM = 20"
    "risk_points RISK_HIGH = 10" "risk_points RISK_UNKNOWN = 10"
    by (simp_all add: risk_points_def)
  show "quality_score (advancePhase p) = quality_score p"
    by (simp add: advancePhase_def Let_def)
  show "quality_score (markProjectComplete p) = 95"
    by (simp add: markProjectComplete_def)
next
  assume "0 \<le> m_phase_completion (js_metrics project) \<and>
    m_phase_completion (js_metrics project) \<le> 100 \<and> metGates project \<le> 16"
  then have "10 \<le> calculateQualityScore project \<and> calculateQualityScore project \<le> 100"
    by (intro calculateQualityScore_range) simp_all
  then show "10 \<le> calculateQualityScore project" "calculateQualityScore project \<le> 100"
    by simp_all
next
  assume "js_definePhase found1 now1 = Inr r1"
  then show "m_quality_score (js_metrics r1) = calculateQualityScore r1"
    by (rule js_phase_results_recompute)
next
  assume "js_measurePhase found2 now2 = Inr r2"
  then show "m_quality_score (js_metrics r2) = calculateQualityScore r2"
    by (rule js_phase_results_recompute)
next
  assume "js_improvePhase found3 approach now3 = Inr r3"
  then show "m_quality_score (js_metrics r3) = calculateQualityScore r3"
    by (rule js_phase_results_recompute)
next
  assume "js_controlPhase found4 now4 = Inr r4"
  then show "m_quality_score (js_metrics r4) = calculateQualityScore r4"
    by (rule js_phase_results_recompute)
qed

text \<open>
  The example project of the server: 26 after \<open>define_phase\<close> (8 + 7.5 + 10 = 25.5,
  rounded up), 34 after \<open>measure_phase\<close>, 60 after \<open>improve_phase\<close> and 68 after
  \<open>control_phase\<close>.
\<close>

text \<open>
  The example project of the server: 26 after \<open>define_phase\<close> (8 + 7.5 + 10 = 25.5,
  rounded up), 34 after \<open>measure_phase\<close>, 60 after \<open>improve_phase\<close> and 68 after
  \<open>control_phase\<close>.
\<close>

theorem quality_score_formula_witness:
  "js_definePhase (Some js_created) ''t1'' = Inr js_defined \<and>
   js_measurePhase (Some js_defined) ''t2'' = Inr js_measured \<and>
   js_improvePhase (Some js_analyzed) None ''t4'' = Inr js_improved \<and>
   js_controlPhase (Some js_improved) ''t5'' = Inr js_completed \<and>
   0 \<le> m_phase_completion (js_metrics js_improved) \<and>
   m_phase_completion (js_metrics js_improved) \<le> 100 \<and>
   metGates js_improved \<le> 16 \<and>
   m_quality_score (js_metrics js_defined) = 26 \<and>
   m_quality_score (js_metrics js_measured) = 34 \<and>
   m_quality_score (js_metrics js_improved) = 60 \<and>
   m_quality_score (js_metrics js_completed) = 68 \<and>
   10 \<le> calculateQualityScore js_improved \<and> calculateQualityScore js_improved \<le> 100"
proof -
  note T = quality_score_formula
    [where project = js_improved
       and ?found1.0 = "Some js_created" and ?now1.0 = "''t1''" and ?r1.0 = js_defined
       and ?found2.0 = "Some js_defined" and ?now2.0 = "''t2''" and ?r2.0 = js_measured
       and ?found3.0 = "Some js_analyzed" and approach = None and ?now3.0 = "''t4''"
       and ?r3.0 = js_improved
       and ?found4.0 = "Some js_improved" and ?now4.0 = "''t5''" and ?r4.0 = js_completed]
  have range: "0 \<le> m_phase_completion (js_metrics js_improved)"
    "m_phase_completion (js_metrics js_improved) \<le> 100" "metGates js_improved \<le> 16"
    by (simp_all add: js_example_values)
  from T js_example_define have "m_quality_score (js_metrics js_defined) = calculateQualityScore js_defined"
    by blast
  moreover from T js_example_measure
  have "m_quality_score (js_metrics js_measured) = calculateQualityScore js_measured"
    by blast
  moreover from T js_example_improve
  have "m_quality_score (js_metrics js_improved) = calculateQualityScore js_improved"
    by blast
  moreover from T js_example_control
  have "m_quality_score (js_metrics js_completed) = calculateQualityScore js_completed"
    by blast
  moreover from T range
  have "10 \<le> calculateQualityScore js_improved \<and> calculateQualityScore js_improved \<le> 100"
    by blast
  ultimately show ?thesis
    using range js_example_define js_example_measure js_example_improve js_example_control
    by (simp add: js_example_values)
qed

text \<open>
  C6 as stated fails on the example project after \<open>improve_phase\<close>: with completion
  80, 4 of 16 criteria met and risk level MEDIUM the stored score is 60, where the
  stated formula gives 0.4 * 80 + 0.3 * 25 + 0.3 * 20 = 45.5. In the dashboard the
  score written on completion is the constant 95.
\<close>

theorem quality_score_counterexample:
  "m_phase_completion (js_metrics js_improved) = 80 \<and>
   metGates js_improved = 4 \<and>
   totalGates = 16 \<and>
   m_risk_level (js_metrics js_improved) = RISK_MEDIUM \<and>
   m_quality_score (js_metrics js_improved) = 60 \<and>
   spec_quality_score 80 4 16 MEDIUM = 91 / 2 \<and>
   (60 :: real) \<noteq> 91 / 2 \<and>
   quality_score (markProjectComplete (example_project CONTROL 100)) = 95"
  by (simp add: js_example_values totalGates_16 spec_quality_score_def
        spec_risk_contribution_def markProjectComplete_def)

text \<open>
  The guard against a completed project where the code has one. In the dashboard a
  completed project has no phase component and hence no completion button: a click
  changes nothing. In the protocol server \<open>define_phase\<close> and \<open>measure_phase\<close> compare
  the current phase first and fail with ``Cannot execute ... Current phase is
  COMPLETED'' before anything is written.
\<close>

lemma guarded_operations_reject_completed:
  "(current_phase p = COMPLETED \<longrightarrow>
      \<not> button_enabled (current_phase p) s \<and> click_complete p s = p) \<and>
   (js_current_phase r = COMPLETED \<longrightarrow>
      js_definePhase (Some r) now = Inl (CannotExecutePhase DEFINE COMPLETED) \<and>
      js_measurePhase (Some r) now = Inl (CannotExecutePhase MEASURE COMPLETED))"
proof (intro conjI impI)
  assume c: "current_phase p = COMPLETED"
  then show no_button: "\<not> button_enabled (current_phase p) s"
    by (simp add: button_enabled_def)
  then show "click_complete p s = p"
    by (simp add: click_complete_def)
next
  assume c: "js_current_phase r = COMPLETED"
  then have "js_current_phase r \<noteq> DEFINE" and "js_current_phase r \<noteq> MEASURE"
    by simp_all
  then show "js_definePhase (Some r) now = Inl (CannotExecutePhase DEFINE COMPLETED)"
    and "js_measurePhase (Some r) now = Inl (CannotExecutePhase MEASURE COMPLETED)"
    using c by (simp_all add: js_definePhase_def js_measurePhase_def)
qed

text \<open>
  C8: COMPLETED is terminal, and every mutating operation on a completed project fails
  and leaves every field unchanged. The operations without the guard break this. The
  example project of the protocol server has gone through \<open>create_project\<close>,
  \<open>define_phase\<close>, \<open>measure_phase\<close>, \<open>analyze_phase\<close>, \<open>improve_phase\<close> and
  \<open>control_phase\<close> (at the times t0 to t5) and is COMPLETED with completion 100. A
  second \<open>control_phase\<close> at t6 returns no error and rewrites the control artifacts
  (their time stamp changes from t5 to t6); \<open>analyze_phase\<close> returns no error and takes
  the project back to IMPROVE with completion 60; \<open>improve_phase\<close> returns no error
  and takes it back to CONTROL with completion 80. In the dashboard \<open>advancePhase\<close>,
  called on a completed project, writes the phase DEFINE with completion 20: COMPLETED
  is not in its list of phases, so the index of the next phase is -1 + 1 = 0, which its
  bound check lets through.
\<close>

theorem completed_project_rewritten:
  "js_current_phase js_completed = COMPLETED \<and>
   m_phase_completion (js_metrics js_completed) = 100 \<and>
   art_control (js_artifacts js_completed) = Some ''t5'' \<and>
   map_sum id (\<lambda>r. (js_current_phase r, art_control (js_artifacts r)))
     (js_controlPhase (Some js_completed) ''t6'') = Inr (COMPLETED, Some ''t6'') \<and>
   map_sum id (\<lambda>r. (js_current_phase r, m_phase_completion (js_metrics r)))
     (js_analyzePhase (Some js_completed) None ''t6'') = Inr (IMPROVE, 60) \<and>
   map_sum id (\<lambda>r. (js_current_phase r, m_phase_completion (js_metrics r)))
     (js_improvePhase (Some js_completed) None ''t6'') = Inr (CONTROL, 80) \<and>
   current_phase (example_project COMPLETED 100) = COMPLETED \<and>
   advancePhase (example_project COMPLETED 100) =
     (example_project COMPLETED 100)\<lparr>current_phase := DEFINE, phase_completion := 20\<rparr>"
proof -
  have before: "js_current_phase js_completed = COMPLETED"
    "m_phase_completion (js_metrics js_completed) = 100"
    "art_control (js_artifacts js_completed) = Some ''t5''"
    by (simp_all add: js_completed_def js_controlPhase_def result_or_def with_quality_score_def)
  have control: "map_sum id (\<lambda>r. (js_current_phase r, art_control (js_artifacts r)))
     (js_controlPhase (Some js_completed) ''t6'') = Inr (COMPLETED, Some ''t6'')"
    by (simp add: js_controlPhase_def with_quality_score_def)
  have analyze: "map_sum id (\<lambda>r. (js_current_phase r, m_phase_completion (js_metrics r)))
     (js_analyzePhase (Some js_completed) None ''t6'') = Inr (IMPROVE, 60)"
    by (simp add: js_analyzePhase_def Let_def)
  have improve: "map_sum id (\<lambda>r. (js_current_phase r, m_phase_completion (js_metrics r)))
     (js_improvePhase (Some js_completed) None ''t6'') = Inr (CONTROL, 80)"
    by (simp add: js_improvePhase_def Let_def with_quality_score_def)
  have dashboard: "current_phase (example_project COMPLETED 100) = COMPLETED"
    "advancePhase (example_project COMPLETED 100) =
       (example_project COMPLETED 100)\<lparr>current_phase := DEFINE, phase_completion := 20\<rparr>"
    by (simp_all add: example_project_def advancePhase_def phases_def Let_def)
  from before control analyze improve dashboard show ?thesis
    by simp
qed

text \<open>
  C2, as amended. In the dashboard the completion condition of each phase is the
  conjunction of its criteria: DEFINE needs at least one requirement, at least one
  quality-target item (every stored item carries a target and a USL: both are
  mandatory numbers of the item) and at least one constraint; MEASURE needs at least
  three KPIs (each carries a target in the same way); ANALYZE needs at least two risk
  items; IMPROVE needs a solution whose status is approved or implemented; CONTROL
  needs all four boxes ticked. In the quality gate manager of the agent-based server
  \<open>evaluateGate\<close> passes a gate when at least 80 percent of its criteria pass, which
  for its gates of three or four criteria is when all of them pass; its criteria are
  its own: the Define gate asks for the VOC analysis, the CTQ tree, the constraints
  and the project charter, the Measure gate for the KPI validator, and the criteria
  of the Analyze, Improve and Control gates are placeholders that pass for every
  project.
\<close>

theorem gate_criteria:
  "(DefinePhase_canComplete rs qs cs \<longleftrightarrow> length rs \<ge> 1 \<and> length qs \<ge> 1 \<and> length cs \<ge> 1) \<and>
   (MeasurePhase_canComplete ks \<longleftrightarrow> length ks \<ge> 3) \<and>
   (AnalyzePhase_canComplete fs \<longleftrightarrow> length fs \<ge> 2) \<and>
   (ImprovePhase_canComplete ss \<longleftrightarrow>
      (\<exists>x \<in> set ss. sol_status x = approved \<or> sol_status x = implemented)) \<and>
   (allItemsComplete ci \<longleftrightarrow> monitoring ci \<and> documentation ci \<and> validation ci \<and> training ci) \<and>
   button_enabled DEFINE s =
     DefinePhase_canComplete (snap_requirements s) (snap_ctqItems s) (snap_constraints s) \<and>
   button_enabled MEASURE s = MeasurePhase_canComplete (snap_kpis s) \<and>
   button_enabled ANALYZE s = AnalyzePhase_canComplete (snap_fmeaItems s) \<and>
   button_enabled IMPROVE s = ImprovePhase_canComplete (snap_solutions s) \<and>
   button_enabled CONTROL s = allItemsComplete (snap_controlItems s) \<and>
   (evaluateGate project f t = Inr res \<longrightarrow>
      (gate_passed res \<longleftrightarrow> list_all passed (criteria_results res))) \<and>
   map_sum id gate_passed (evaluateGate pr D_DEFINE D_MEASURE) =
     Inr (passed (validateVOCComplete pr) \<and> passed (validateCTQDefined pr) \<and>
          passed (validateConstraintsDocumented pr) \<and> passed (validateProjectCharter pr)) \<and>
   map_sum id gate_passed (evaluateGate pr D_MEASURE D_ANALYZE) =
     Inr (passed (validateKPIsDefined pr)) \<and>
   map_sum id gate_passed (evaluateGate pr D_ANALYZE D_IMPROVE) = Inr True \<and>
   map_sum id gate_passed (evaluateGate pr D_IMPROVE D_CONTROL) = Inr True \<and>
   map_sum id gate_passed (evaluateGate pr D_CONTROL D_COMPLETE) = Inr True"
proof (intro conjI impI)
  show "DefinePhase_canComplete rs qs cs \<longleftrightarrow> length rs \<ge> 1 \<and> length qs \<ge> 1 \<and> length cs \<ge> 1"
    by (auto simp: DefinePhase_canComplete_def Suc_le_eq)
  show "MeasurePhase_canComplete ks \<longleftrightarrow> length ks \<ge> 3"
    by (simp add: MeasurePhase_canComplete_def)
  show "AnalyzePhase_canComplete fs \<longleftrightarrow> length fs \<ge> 2"
    by (simp add: AnalyzePhase_canComplete_def)
  show "ImprovePhase_canComplete ss \<longleftrightarrow>
      (\<exists>x \<in> set ss. sol_status x = approved \<or> sol_status x = implemented)"
    by (simp add: ImprovePhase_canComplete_def list_ex_iff)
  show "allItemsComplete ci \<longleftrightarrow> monitoring ci \<and> documentation ci \<and> validation ci \<and> training ci"
    by (simp add: allItemsComplete_def)
  show "button_enabled DEFINE s =
     DefinePhase_canComplete (snap_requirements s) (snap_ctqItems s) (snap_constraints s)"
    "button_enabled MEASURE s = MeasurePhase_canComplete (snap_kpis s)"
    "button_enabled ANALYZE s = AnalyzePhase_canComplete (snap_fmeaItems s)"
    "button_enabled IMPROVE s = ImprovePhase_canComplete (snap_solutions s)"
    "button_enabled CONTROL s = allItemsComplete (snap_controlItems s)"
    by (simp_all add: button_enabled_def)
  show "map_sum id gate_passed (evaluateGate pr D_DEFINE D_MEASURE) =
     Inr (passed (validateVOCComplete pr) \<and> passed (validateCTQDefined pr) \<and>
          passed (validateConstraintsDocumented pr) \<and> passed (validateProjectCharter pr))"
    by (rule evaluateGate_define)
  show "map_sum id gate_passed (evaluateGate pr D_MEASURE D_ANALYZE) =
     Inr (passed (validateKPIsDefined pr))"
    by (rule evaluateGate_measure)
  show "map_sum id gate_passed (evaluateGate pr D_ANALYZE D_IMPROVE) = Inr True"
    "map_sum id gate_passed (evaluateGate pr D_IMPROVE D_CONTROL) = Inr True"
    "map_sum id gate_passed (evaluateGate pr D_CONTROL D_COMPLETE) = Inr True"
    by (rule evaluateGate_placeholders)+
next
  assume "evaluateGate project f t = Inr res"
  then show "gate_passed res \<longleftrightarrow> list_all passed (criteria_results res)"
    by (rule evaluateGate_all)
qed

text \<open>
  A project in DEFINE with one requirement, one quality-target item and one constraint
  passes; with three of the four boxes of the Control tab ticked the Control condition
  fails; the Define gate of the gate manager fails for a project without artifacts,
  with none of its four criteria passed.
\<close>

theorem gate_criteria_witness:
  "button_enabled DEFINE define_ready_snapshot \<and>
   \<not> button_enabled DEFINE empty_snapshot \<and>
   \<not> button_enabled CONTROL control_training_missing_snapshot \<and>
   button_enabled CONTROL control_ready_snapshot \<and>
   evaluateGate project_without_artifacts D_DEFINE D_MEASURE =
     Inr \<lparr>gate_passed = False,
          criteria_results =
            [\<lparr>criterion = ''VOC_COMPLETE'', passed = False\<rparr>,
             \<lparr>criterion = ''CTQ_DEFINED'', passed = False\<rparr>,
             \<lparr>criterion = ''CONSTRAINTS_DOCUMENTED'', passed = False\<rparr>,
             \<lparr>criterion = ''PROJECT_CHARTER_APPROVED'', passed = False\<rparr>],
          overall_score = 0\<rparr> \<and>
   \<not> list_all passed
        [\<lparr>criterion = ''VOC_COMPLETE'', passed = False\<rparr>,
         \<lparr>criterion = ''CTQ_DEFINED'', passed = False\<rparr>,
         \<lparr>criterion = ''CONSTRAINTS_DOCUMENTED'', passed = False\<rparr>,
         \<lparr>criterion = ''PROJECT_CHARTER_APPROVED'', passed = False\<rparr>]"
proof -
  have e: "evaluateGate project_without_artifacts D_DEFINE D_MEASURE =
     Inr \<lparr>gate_passed = False,
          criteria_results =
            [\<lparr>criterion = ''VOC_COMPLETE'', passed = False\<rparr>,
             \<lparr>criterion = ''CTQ_DEFINED'', passed = False\<rparr>,
             \<lparr>criterion = ''CONSTRAINTS_DOCUMENTED'', passed = False\<rparr>,
             \<lparr>criterion = ''PROJECT_CHARTER_APPROVED'', passed = False\<rparr>],
          overall_score = 0\<rparr>"
    by (simp add: evaluateGate_def gatesCriteria_def project_without_artifacts_def Let_def
          validateVOCComplete_def validateCTQDefined_def validateConstraintsDocumented_def
          validateProjectCharter_def)
  note T1 = gate_criteria [where s = define_ready_snapshot
      and project = project_without_artifacts and f = D_DEFINE and t = D_MEASURE
      and res = "\<lparr>gate_passed = False,
          criteria_results =
            [\<lparr>criterion = ''VOC_COMPLETE'', passed = False\<rparr>,
             \<lparr>criterion = ''CTQ_DEFINED'', passed = False\<rparr>,
             \<lparr>criterion = ''CONSTRAINTS_DOCUMENTED'', passed = False\<rparr>,
             \<lparr>criterion = ''PROJECT_CHARTER_APPROVED'', passed = False\<rparr>],
          overall_score = 0\<rparr>"]
  from T1 e have "\<not> list_all passed
        [\<lparr>criterion = ''VOC_COMPLETE'', passed = False\<rparr>,
         \<lparr>criterion = ''CTQ_DEFINED'', passed = False\<rparr>,
         \<lparr>criterion = ''CONSTRAINTS_DOCUMENTED'', passed = False\<rparr>,
         \<lparr>criterion = ''PROJECT_CHARTER_APPROVED'', passed = False\<rparr>]"
    by simp
  moreover have "button_enabled DEFINE define_ready_snapshot"
    "\<not> button_enabled DEFINE empty_snapshot"
    "\<not> button_enabled CONTROL control_training_missing_snapshot"
    "button_enabled CONTROL control_ready_snapshot"
    by (simp_all add: button_enabled_def define_ready_snapshot_def empty_snapshot_def
          control_training_missing_snapshot_def control_ready_snapshot_def
          DefinePhase_canComplete_def allItemsComplete_def)
  ultimately show ?thesis using e by simp
qed

text \<open>
  C2 as stated fails on the quality gate manager: for a project without any artifact,
  and so without a single risk item, \<open>evaluateGate\<close> from ANALYZE to IMPROVE passes
  with all three criteria.
\<close>

theorem gate_criteria_counterexample:
  "ps_analyze_failure_modes project_without_artifacts = None \<and>
   evaluateGate project_without_artifacts D_ANALYZE D_IMPROVE =
     Inr \<lparr>gate_passed = True,
          criteria_results =
            [\<lparr>criterion = ''ROOT_CAUSES_IDENTIFIED'', passed = True\<rparr>,
             \<lparr>criterion = ''FMEA_COMPLETE'', passed = True\<rparr>,
             \<lparr>criterion = ''PROCESS_INEFFICIENCIES_MAPPED'', passed = True\<rparr>],
          overall_score = 100\<rparr>"
  by (simp add: evaluateGate_def gatesCriteria_def project_without_artifacts_def Let_def
        createPlaceholderResult_def)





end
